theory Spec2Isabelle
  imports Complex_Main
begin

section \<open>Python values\<close>

text \<open>
  The script \<^verbatim>\<open>generate_app_icon.py\<close> draws three icon layers with Pillow and writes
  them to disk. Python integers are \<^typ>\<open>int\<close>. Python floats are idealised as exact
  rationals: the script only forms products and quotients of small integers with the
  constants 0.1 ... 0.9, 0.12 and 0.2 and the interpolation ratio \<open>y / height\<close>.
  An exception is a value of type \<open>error\<close>; a function that can raise returns
  \<open>error + 'a\<close>, with \<open>Inl\<close> for the exception.
\<close>

datatype error =
    ValueError string
  | OSError string
  | FileExistsError string
  | FileNotFoundError string
  | IsADirectoryError string
  | NotADirectoryError string

text \<open>\<open>str(e)\<close>, as the f-string of the warning formats the exception.\<close>

fun error_str :: "error \<Rightarrow> string" where
  "error_str (ValueError m) = m"
| "error_str (OSError m) = m"
| "error_str (FileExistsError m) = m"
| "error_str (FileNotFoundError m) = m"
| "error_str (IsADirectoryError m) = m"
| "error_str (NotADirectoryError m) = m"

text \<open>\<open>int(x)\<close> on a float truncates towards zero.\<close>

definition py_int :: "rat \<Rightarrow> int" where
  "py_int q = (if 0 \<le> q then \<lfloor>q\<rfloor> else \<lceil>q\<rceil>)"

text \<open>\<open>range(n)\<close>: the integers \<open>0, ..., n - 1\<close>, none when \<open>n \<le> 0\<close>.\<close>

definition py_range :: "int \<Rightarrow> int list" where
  "py_range n = [0..n - 1]"

section \<open>Pillow images\<close>

type_synonym rgba = "int \<times> int \<times> int \<times> int"


text \<open>
  An RGBA image is its width, its height and its pixel buffer, read at \<open>(x, y)\<close>. Only the positions
  inside the image (\<open>in_bounds\<close>) are pixels; every drawing operation clips to them.
\<close>

record image =
  img_width :: int
  img_height :: int
  img_px :: "int \<times> int \<Rightarrow> rgba"

definition in_bounds :: "image \<Rightarrow> int \<times> int \<Rightarrow> bool" where
  "in_bounds img p =
     (0 \<le> fst p \<and> fst p < img_width img \<and> 0 \<le> snd p \<and> snd p < img_height img)"

text \<open>\<open>Image.new('RGBA', (width, height), color)\<close>; Pillow refuses a negative width or height.\<close>

definition Image_new :: "int \<times> int \<Rightarrow> rgba \<Rightarrow> error + image" where
  "Image_new sz color =
     (if fst sz < 0 \<or> snd sz < 0
      then Inl (ValueError ''Width and height must be >= 0'')
      else Inr \<lparr>img_width = fst sz, img_height = snd sz, img_px = (\<lambda>_. color)\<rparr>)"

text \<open>
  What Pillow computes inside its C core is a parameter of the model: which pixels a
  polygon, an ellipse or a slanted line covers, how Lanczos resampling computes a pixel,
  which font a path loads, and what a font's glyphs do to the pixels they touch.
  \<open>'f\<close> is the type of loaded fonts.
\<close>

record 'f pillow =
  pil_line_covers :: "int \<times> int \<Rightarrow> int \<times> int \<Rightarrow> int \<times> int \<Rightarrow> bool"
  pil_polygon_covers :: "(int \<times> int) list \<Rightarrow> int \<times> int \<Rightarrow> bool"
  pil_ellipse_covers :: "rat \<times> rat \<times> rat \<times> rat \<Rightarrow> int \<times> int \<Rightarrow> bool"
  pil_resample :: "image \<Rightarrow> int \<times> int \<Rightarrow> int \<times> int \<Rightarrow> rgba"
  pil_truetype :: "string \<Rightarrow> int \<Rightarrow> error + 'f"
  pil_textbbox :: "'f \<Rightarrow> rat \<times> rat \<Rightarrow> string \<Rightarrow> error + (rat \<times> rat \<times> rat \<times> rat)"
  pil_text :: "'f \<Rightarrow> rat \<times> rat \<Rightarrow> string \<Rightarrow> rgba \<Rightarrow> error + (int \<times> int \<Rightarrow> (rgba \<Rightarrow> rgba) option)"

text \<open>
  \<open>ImageDraw.Draw(img)\<close> on an RGBA image draws in place and without blending: a covered
  pixel takes the fill colour. The model returns the updated image.
\<close>

definition paint :: "(int \<times> int \<Rightarrow> bool) \<Rightarrow> rgba \<Rightarrow> image \<Rightarrow> image" where
  "paint covers fill img =
     img\<lparr>img_px := (\<lambda>p. if in_bounds img p \<and> covers p then fill else img_px img p)\<rparr>"

text \<open>
  \<open>draw.line([a, b], fill)\<close>, of width 1. Between two points of one row Pillow paints
  the pixels of that row from one end to the other, both included.
\<close>

definition line_covers :: "'f pillow \<Rightarrow> int \<times> int \<Rightarrow> int \<times> int \<Rightarrow> int \<times> int \<Rightarrow> bool" where
  "line_covers pil a b p =
     (if snd a = snd b
      then snd p = snd a \<and> min (fst a) (fst b) \<le> fst p \<and> fst p \<le> max (fst a) (fst b)
      else pil_line_covers pil a b p)"

definition draw_line :: "'f pillow \<Rightarrow> int \<times> int \<Rightarrow> int \<times> int \<Rightarrow> rgba \<Rightarrow> image \<Rightarrow> image" where
  "draw_line pil a b fill img = paint (line_covers pil a b) fill img"

definition draw_polygon :: "'f pillow \<Rightarrow> (int \<times> int) list \<Rightarrow> rgba \<Rightarrow> image \<Rightarrow> image" where
  "draw_polygon pil points fill img = paint (pil_polygon_covers pil points) fill img"

definition draw_ellipse :: "'f pillow \<Rightarrow> rat \<times> rat \<times> rat \<times> rat \<Rightarrow> rgba \<Rightarrow> image \<Rightarrow> image" where
  "draw_ellipse pil box fill img = paint (pil_ellipse_covers pil box) fill img"

text \<open>
  \<open>draw.text(xy, text, fill, font)\<close>: the glyphs blend the fill into the pixels they
  touch and leave every other pixel alone; rendering can raise.
\<close>

definition draw_text ::
  "'f pillow \<Rightarrow> 'f \<Rightarrow> rat \<times> rat \<Rightarrow> string \<Rightarrow> rgba \<Rightarrow> image \<Rightarrow> error + image" where
  "draw_text pil font xy txt fill img =
     (case pil_text pil font xy txt fill of
        Inl e \<Rightarrow> Inl e
      | Inr glyphs \<Rightarrow>
          Inr (img\<lparr>img_px := (\<lambda>p. if in_bounds img p
                                   then (case glyphs p of None \<Rightarrow> img_px img p
                                         | Some blend \<Rightarrow> blend (img_px img p))
                                   else img_px img p)\<rparr>))"

text \<open>
  \<open>img.resize((w, h), Image.LANCZOS)\<close>: a copy when the dimensions do not change,
  an error for an empty target, and otherwise an image of the requested dimensions
  whose pixels the resampling filter computes.
\<close>

definition Image_resize :: "'f pillow \<Rightarrow> image \<Rightarrow> int \<times> int \<Rightarrow> error + image" where
  "Image_resize pil img sz =
     (if sz = (img_width img, img_height img) then Inr img
      else if fst sz < 1 \<or> snd sz < 1
      then Inl (ValueError ''height and width must be > 0'')
      else Inr \<lparr>img_width = fst sz, img_height = snd sz,
                img_px = pil_resample pil img sz\<rparr>)"

section \<open>The gradient\<close>

text \<open>
  The body of the loop of \<open>create_gradient\<close>: the colour of scanline \<open>y\<close>.
  \<^verbatim>\<open>
    ratio = y / height
    r = int(135 + (173 - 135) * ratio)
    g = int(206 + (216 - 206) * ratio)
    b = int(235 + (230 - 235) * ratio)
  \<close>
\<close>

definition gradient_color :: "int \<Rightarrow> int \<Rightarrow> rgba" where
  "gradient_color y height =
     (let ratio = (of_int y / of_int height :: rat);
          r = py_int (135 + (173 - 135) * ratio);
          g = py_int (206 + (216 - 206) * ratio);
          b = py_int (235 + (230 - 235) * ratio)
      in (r, g, b, 255))"

definition gradient_line :: "'f pillow \<Rightarrow> int \<Rightarrow> int \<Rightarrow> int \<Rightarrow> image \<Rightarrow> image" where
  "gradient_line pil width height y img =
     draw_line pil (0, y) (width, y) (gradient_color y height) img"

definition create_gradient :: "'f pillow \<Rightarrow> int \<Rightarrow> int \<Rightarrow> error + image" where
  "create_gradient pil width height =
     (case Image_new (width, height) (0, 0, 0, 0) of
        Inl e \<Rightarrow> Inl e
      | Inr img \<Rightarrow> Inr (fold (gradient_line pil width height) (py_range height) img))"

section \<open>The airplane\<close>

definition body_points :: "int \<Rightarrow> int \<Rightarrow> int \<Rightarrow> (int \<times> int) list" where
  "body_points center_x center_y sz =
     [(center_x, center_y - sz),
      (center_x + sz div 6, center_y + sz div 2),
      (center_x, center_y + sz div 3),
      (center_x - sz div 6, center_y + sz div 2)]"

definition wing_points :: "int \<Rightarrow> int \<Rightarrow> int \<Rightarrow> (int \<times> int) list" where
  "wing_points center_x center_y sz =
     [(center_x - sz, center_y - sz div 4),
      (center_x - sz div 3, center_y),
      (center_x + sz div 3, center_y),
      (center_x + sz, center_y - sz div 4)]"

definition tail_points :: "int \<Rightarrow> int \<Rightarrow> int \<Rightarrow> (int \<times> int) list" where
  "tail_points center_x center_y sz =
     [(center_x - sz div 3, center_y + sz div 3),
      (center_x, center_y + sz div 2),
      (center_x + sz div 3, center_y + sz div 3)]"

definition draw_airplane :: "'f pillow \<Rightarrow> int \<Rightarrow> int \<Rightarrow> int \<Rightarrow> rgba \<Rightarrow> image \<Rightarrow> image" where
  "draw_airplane pil center_x center_y sz color img =
     draw_polygon pil (tail_points center_x center_y sz) color
       (draw_polygon pil (wing_points center_x center_y sz) color
         (draw_polygon pil (body_points center_x center_y sz) color img))"

section \<open>The file system and the terminal\<close>

text \<open>
  The world the script runs in: the directories and the regular files that exist, by
  path, and the lines printed so far. Paths are compared as strings (no symbolic links,
  no \<open>..\<close>); the current directory (the empty path) and the root always exist.
  Permissions and disk space are not modelled.
\<close>

datatype json =
    JStr string
  | JInt int
  | JArr "json list"
  | JObj "(string \<times> json) list"

datatype content = PngFile image | JsonFile json | RawFile string

record world =
  fs_dirs :: "string set"
  fs_files :: "string \<rightharpoonup> content"
  stdout :: "string list"

definition print :: "string \<Rightarrow> world \<Rightarrow> world" where
  "print line w = w\<lparr>stdout := stdout w @ [line]\<rparr>"

definition and_then :: "error + 'a \<Rightarrow> ('a \<Rightarrow> error + 'b) \<Rightarrow> error + 'b" where
  "and_then m f = (case m of Inl e \<Rightarrow> Inl e | Inr x \<Rightarrow> f x)"

text \<open>\<open>os.path.join(a, b)\<close> of \<open>posixpath\<close>.\<close>

definition os_path_join :: "string \<Rightarrow> string \<Rightarrow> string" where
  "os_path_join a b =
     (if b \<noteq> [] \<and> hd b = CHR ''/'' then b
      else if a = [] \<or> last a = CHR ''/'' then a @ b
      else a @ ''/'' @ b)"

text \<open>
  \<open>os.path.dirname(p)\<close>: the path up to its last slash, without the trailing slashes
  unless it consists of slashes only.
\<close>

definition os_path_dirname :: "string \<Rightarrow> string" where
  "os_path_dirname p =
     (let head = rev (dropWhile (\<lambda>c. c \<noteq> CHR ''/'') (rev p))
      in if head \<noteq> [] \<and> \<not> list_all (\<lambda>c. c = CHR ''/'') head
         then rev (dropWhile (\<lambda>c. c = CHR ''/'') (rev head))
         else head)"

definition os_path_exists :: "world \<Rightarrow> string \<Rightarrow> bool" where
  "os_path_exists w p = (p \<noteq> [] \<and> (p = ''/'' \<or> p \<in> fs_dirs w \<or> fs_files w p \<noteq> None))"

definition is_dir :: "world \<Rightarrow> string \<Rightarrow> bool" where
  "is_dir w d = (d = [] \<or> d = ''/'' \<or> d \<in> fs_dirs w)"

text \<open>
  The directories above a path, nearest first: \<open>os.makedirs\<close> creates those that are
  missing. The chain stops at the current directory or at the root.
\<close>

function ancestors :: "string \<Rightarrow> string list" where
  "ancestors p =
     (let d = os_path_dirname p
      in if d = p \<or> d = [] then [] else d # ancestors d)"
  by pat_completeness auto
termination
proof (relation "measure length")
  show "wf (measure (length :: string \<Rightarrow> nat))"
    by simp
next
  fix p d :: string
  assume d: "d = os_path_dirname p" and ne: "\<not> (d = p \<or> d = [])"
  have cut: "\<exists>s. xs = rev (dropWhile P (rev xs)) @ s" for P and xs :: string
  proof -
    have "rev (takeWhile P (rev xs) @ dropWhile P (rev xs)) = xs"
      by simp
    moreover have "rev (takeWhile P (rev xs) @ dropWhile P (rev xs)) =
        rev (dropWhile P (rev xs)) @ rev (takeWhile P (rev xs))"
      by (rule rev_append)
    ultimately have "xs = rev (dropWhile P (rev xs)) @ rev (takeWhile P (rev xs))"
      by (rule trans [OF sym])
    then show ?thesis ..
  qed
  define head where "head = rev (dropWhile (\<lambda>c. c \<noteq> CHR ''/'') (rev p))"
  obtain s1 where s1: "p = head @ s1"
    unfolding head_def using cut by blast
  obtain s2 where s2: "head = rev (dropWhile (\<lambda>c. c = CHR ''/'') (rev head)) @ s2"
    using cut by blast
  have "d = head \<or> d = rev (dropWhile (\<lambda>c. c = CHR ''/'') (rev head))"
    unfolding d os_path_dirname_def Let_def head_def by simp
  then have "\<exists>s. p = d @ s"
  proof
    assume "d = head"
    with s1 show ?thesis by blast
  next
    assume "d = rev (dropWhile (\<lambda>c. c = CHR ''/'') (rev head))"
    with s2 have "head = d @ s2" by simp
    with s1 have "p = d @ (s2 @ s1)" by simp
    then show ?thesis ..
  qed
  then obtain s where "p = d @ s" ..
  with ne have "length d < length p"
    by (cases s) auto
  then show "(d, p) \<in> measure length"
    by simp
qed

declare ancestors.simps [simp del]

text \<open>
  \<open>os.makedirs(p, exist_ok=True)\<close>: the directory and the missing directories above it
  exist afterwards. It raises when the path is empty, when a regular file has that
  path, or when a regular file stands where a directory above it is needed.
\<close>

definition os_makedirs :: "string \<Rightarrow> world \<Rightarrow> error + world" where
  "os_makedirs p w =
     (if p = [] then Inl (FileNotFoundError p)
      else if fs_files w p \<noteq> None then Inl (FileExistsError p)
      else if list_ex (\<lambda>d. fs_files w d \<noteq> None) (ancestors p) then Inl (NotADirectoryError p)
      else Inr (w\<lparr>fs_dirs := fs_dirs w \<union> set (p # ancestors p)\<rparr>))"

text \<open>
  Opening a path for writing and storing the content (\<open>img.save(path)\<close>, and
  \<open>open(path, 'w')\<close> followed by \<open>json.dump\<close>): the path must not be a directory and
  the directory it lies in must exist.
\<close>

definition write_file :: "string \<Rightarrow> content \<Rightarrow> world \<Rightarrow> error + world" where
  "write_file p c w =
     (if p = [] then Inl (FileNotFoundError p)
      else if is_dir w p then Inl (IsADirectoryError p)
      else if fs_files w (os_path_dirname p) \<noteq> None then Inl (NotADirectoryError p)
      else if \<not> is_dir w (os_path_dirname p) then Inl (FileNotFoundError p)
      else Inr (w\<lparr>fs_files := (fs_files w)(p \<mapsto> c)\<rparr>))"

definition Image_save :: "image \<Rightarrow> string \<Rightarrow> world \<Rightarrow> error + world" where
  "Image_save img path w = write_file path (PngFile img) w"

definition json_dump_to :: "json \<Rightarrow> string \<Rightarrow> world \<Rightarrow> error + world" where
  "json_dump_to contents path w = write_file path (JsonFile contents) w"

section \<open>The layers\<close>

definition font_paths :: "string list" where
  "font_paths =
     [''/System/Library/Fonts/Helvetica.ttc'',
      ''/System/Library/Fonts/SFCompact.ttf'',
      ''/usr/share/fonts/truetype/dejavu/DejaVuSans-Bold.ttf'']"

text \<open>
  The search loop of \<open>create_front_layer\<close>: the first path that exists is loaded, and
  the loop ends there, also when loading raises.
  \<^verbatim>\<open>
    font = None
    for font_path in font_paths:
        if os.path.exists(font_path):
            font = ImageFont.truetype(font_path, int(height * 0.12))
            break
  \<close>
\<close>

fun find_font :: "'f pillow \<Rightarrow> world \<Rightarrow> int \<Rightarrow> string list \<Rightarrow> error + 'f option" where
  "find_font pil w sz [] = Inr None"
| "find_font pil w sz (font_path # rest) =
     (if os_path_exists w font_path
      then (case pil_truetype pil font_path sz of
              Inl e \<Rightarrow> Inl e
            | Inr font \<Rightarrow> Inr (Some font))
      else find_font pil w sz rest)"

definition caption :: string where
  "caption = ''FLIGHT TRACKER''"

text \<open>
  The body of the \<open>try\<close> of \<open>create_front_layer\<close>. It returns the image as the drawing
  left it, and the exception that ended it, if one did.
\<close>

definition add_text :: "'f pillow \<Rightarrow> int \<Rightarrow> int \<Rightarrow> world \<Rightarrow> image \<Rightarrow> image \<times> error option" where
  "add_text pil width height w img =
     (case find_font pil w (py_int (of_int height * (12 / 100))) font_paths of
        Inl e \<Rightarrow> (img, Some e)
      | Inr None \<Rightarrow> (img, None)
      | Inr (Some font) \<Rightarrow>
          (case pil_textbbox pil font (0, 0) caption of
             Inl e \<Rightarrow> (img, Some e)
           | Inr bbox \<Rightarrow>
               let text_width = fst (snd (snd bbox)) - fst bbox;
                   text_x = (of_int \<lfloor>(of_int width - text_width) / 2\<rfloor> :: rat);
                   text_y = (of_int (height - py_int (of_int height * (2 / 10))) :: rat)
               in (case draw_text pil font (text_x + 1, text_y + 1) caption (0, 0, 0, 150) img of
                     Inl e \<Rightarrow> (img, Some e)
                   | Inr img1 \<Rightarrow>
                       (case draw_text pil font (text_x, text_y) caption (255, 255, 255, 255) img1 of
                          Inl e \<Rightarrow> (img1, Some e)
                        | Inr img2 \<Rightarrow> (img2, None)))))"

definition warning_sign :: string where
  "warning_sign = [CHR 0xE2, CHR 0x9A, CHR 0xA0, CHR 0xEF, CHR 0xB8, CHR 0x8F]"

definition create_front_layer :: "'f pillow \<Rightarrow> int \<Rightarrow> int \<Rightarrow> world \<Rightarrow> error + (image \<times> world)" where
  "create_front_layer pil width height w =
     (case Image_new (width, height) (0, 0, 0, 0) of
        Inl e \<Rightarrow> Inl e
      | Inr img \<Rightarrow>
          let center_x = width div 2;
              center_y = height div 2 - 20;
              airplane_size = min width height div 4;
              img1 = draw_airplane pil (center_x + 2) (center_y + 2) airplane_size (0, 0, 0, 100) img;
              img2 = draw_airplane pil center_x center_y airplane_size (255, 255, 255, 255) img1
          in (case add_text pil width height w img2 of
                (img3, None) \<Rightarrow> Inr (img3, w)
              | (img3, Some e) \<Rightarrow>
                  Inr (img3, print (warning_sign @ ''  Could not add text: '' @ error_str e) w)))"

definition create_back_layer :: "'f pillow \<Rightarrow> int \<Rightarrow> int \<Rightarrow> error + image" where
  "create_back_layer pil width height = create_gradient pil width height"

definition cloud_color :: rgba where
  "cloud_color = (255, 255, 255, 80)"

definition create_middle_layer :: "'f pillow \<Rightarrow> int \<Rightarrow> int \<Rightarrow> error + image" where
  "create_middle_layer pil width height =
     (case Image_new (width, height) (0, 0, 0, 0) of
        Inl e \<Rightarrow> Inl e
      | Inr img \<Rightarrow>
          let img1 = draw_ellipse pil
                       (of_int width * (1 / 10), of_int height * (3 / 10),
                        of_int width * (3 / 10), of_int height * (5 / 10)) cloud_color img;
              img2 = draw_ellipse pil
                       (of_int width * (7 / 10), of_int height * (4 / 10),
                        of_int width * (9 / 10), of_int height * (6 / 10)) cloud_color img1
          in Inr img2)"

section \<open>The export step\<close>

text \<open>The dictionary that \<open>save_imageset\<close> dumps as \<open>Contents.json\<close>.\<close>

definition contents :: "string \<Rightarrow> json" where
  "contents name =
     JObj [(''images'',
            JArr [JObj [(''filename'', JStr (name @ ''.png'')),
                        (''idiom'', JStr ''tv''),
                        (''scale'', JStr ''1x'')],
                  JObj [(''filename'', JStr (name @ ''@2x.png'')),
                        (''idiom'', JStr ''tv''),
                        (''scale'', JStr ''2x'')]]),
           (''info'',
            JObj [(''author'', JStr ''xcode''),
                  (''version'', JInt 1)])]"

definition check_mark :: string where
  "check_mark = [CHR 0xE2, CHR 0x9C, CHR 0x85]"

definition save_imageset :: "'f pillow \<Rightarrow> image \<Rightarrow> string \<Rightarrow> string \<Rightarrow> world \<Rightarrow> error + world" where
  "save_imageset pil img base_path name w =
     (let imageset_path = os_path_join base_path (name @ ''.imageset'')
      in and_then (os_makedirs imageset_path w) (\<lambda>w.
         and_then (Image_save img (os_path_join imageset_path (name @ ''.png'')) w) (\<lambda>w.
         and_then (Image_resize pil img (img_width img * 2, img_height img * 2)) (\<lambda>img_2x.
         and_then (Image_save img_2x (os_path_join imageset_path (name @ ''@2x.png'')) w) (\<lambda>w.
         and_then (json_dump_to (contents name) (os_path_join imageset_path ''Contents.json'') w) (\<lambda>w.
         Inr (print (check_mark @ '' Created '' @ name @ '' @ 1x and 2x'') w)))))))"

section \<open>The driver\<close>

definition palette :: string where
  "palette = [CHR 0xF0, CHR 0x9F, CHR 0x8E, CHR 0xA8]"

definition set_square :: string where
  "set_square = [CHR 0xF0, CHR 0x9F, CHR 0x93, CHR 0x90]"

definition sparkles :: string where
  "sparkles = [CHR 0xE2, CHR 0x9C, CHR 0xA8]"

definition clipboard :: string where
  "clipboard = [CHR 0xF0, CHR 0x9F, CHR 0x93, CHR 0x8B]"

definition party_popper :: string where
  "party_popper = [CHR 0xF0, CHR 0x9F, CHR 0x8E, CHR 0x89]"

definition shift_command :: string where
  "shift_command = [CHR 0xE2, CHR 0x87, CHR 0xA7, CHR 0xE2, CHR 0x8C, CHR 0x98]"

definition cross_mark :: string where
  "cross_mark = [CHR 0xE2, CHR 0x9D, CHR 0x8C]"

definition newline :: string where
  "newline = [CHR 0x0A]"

text \<open>What \<open>main\<close> prints at its start, between its steps and at its end.\<close>

definition banner_line :: string where
  "banner_line = palette @ '' Generating App Icons for Eddie's Flight Tracker...''"

definition icon_layers_line :: string where
  "icon_layers_line = newline @ set_square @ '' Generating 400x240 icon layers...''"

definition preview_saved_line :: "string \<Rightarrow> string" where
  "preview_saved_line output_dir = check_mark @ '' Preview images saved to '' @ output_dir @ ''/''"

definition store_layers_line :: string where
  "store_layers_line = newline @ set_square @ '' Generating 1280x768 App Store icon layers...''"

definition done_line :: string where
  "done_line = newline @ sparkles @ '' Done! Generated icon layers in 'AppIconAssets/' folder''"

definition next_steps :: "string list" where
  "next_steps =
     [newline @ clipboard @ '' Next steps:'',
      ''1. Open Xcode and navigate to:'',
      ''   FlightTracker/Assets.xcassets/App Icon & Top Shelf Image.brandassets/'',
      newline @ ''2. For 'App Icon.imagestack':'',
      ''   - Front.imagestacklayer/Content.imageset: Drag Front-preview.png to 1x slot'',
      ''   - Back.imagestacklayer/Content.imageset: Drag Back-preview.png to 1x slot'',
      ''   - Middle.imagestacklayer/Content.imageset: Drag Middle-preview.png to 1x slot'',
      newline @ ''3. For 'App Icon - App Store.imagestack':'',
      ''   - Do the same with Front/Back/Middle-AppStore-preview.png files'',
      newline @ ''4. Clean build ('' @ shift_command @ ''K) and rebuild'',
      ''5. Delete app from Apple TV and reinstall'',
      newline @ party_popper @ '' Your icon should now appear!'']"

definition main :: "'f pillow \<Rightarrow> world \<Rightarrow> error + world" where
  "main pil w =
     (let w = print banner_line w;
          output_dir = ''AppIconAssets''
      in and_then (os_makedirs output_dir w) (\<lambda>w.
         let width = 400; height = 240;
             w = print icon_layers_line w
         in and_then (create_front_layer pil width height w) (\<lambda>(front, w).
            and_then (create_back_layer pil width height) (\<lambda>back.
            and_then (create_middle_layer pil width height) (\<lambda>middle.
            and_then (Image_save front (os_path_join output_dir ''Front-preview.png'') w) (\<lambda>w.
            and_then (Image_save back (os_path_join output_dir ''Back-preview.png'') w) (\<lambda>w.
            and_then (Image_save middle (os_path_join output_dir ''Middle-preview.png'') w) (\<lambda>w.
            let w = print (preview_saved_line output_dir) w;
                w = print store_layers_line w;
                store_width = 1280; store_height = 768
            in and_then (create_front_layer pil store_width store_height w) (\<lambda>(front_store, w).
               and_then (create_back_layer pil store_width store_height) (\<lambda>back_store.
               and_then (create_middle_layer pil store_width store_height) (\<lambda>middle_store.
               and_then (Image_save front_store
                           (os_path_join output_dir ''Front-AppStore-preview.png'') w) (\<lambda>w.
               and_then (Image_save back_store
                           (os_path_join output_dir ''Back-AppStore-preview.png'') w) (\<lambda>w.
               and_then (Image_save middle_store
                           (os_path_join output_dir ''Middle-AppStore-preview.png'') w) (\<lambda>w.
               Inr (fold print (done_line # next_steps) w)))))))))))))))"

text \<open>
  The script as a whole. \<open>None\<close> stands for a system where \<open>from PIL import ...\<close> raises
  \<open>ImportError\<close>: the script prints one line and calls \<open>exit(1)\<close>. Otherwise \<open>main\<close>
  runs; when it returns, the interpreter exits with status 0, and an exception that
  leaves \<open>main\<close> ends the process with a traceback (\<open>Inl\<close>).
\<close>

definition script :: "'f pillow option \<Rightarrow> world \<Rightarrow> error + (int \<times> world)" where
  "script pillow w =
     (case pillow of
        None \<Rightarrow> Inr (1, print (cross_mark @ '' PIL/Pillow not installed. Run: pip3 install pillow'') w)
      | Some pil \<Rightarrow> and_then (main pil w) (\<lambda>w. Inr (0, w)))"

section \<open>Reading results and concrete inputs\<close>

text \<open>
  \<open>img.getpixel(p)\<close> on the result of a function that builds an image: the pixel, or
  nothing when the function raised or the position lies outside the image.
\<close>

definition getpixel :: "error + image \<Rightarrow> int \<times> int \<Rightarrow> rgba option" where
  "getpixel r p =
     (case r of
        Inl e \<Rightarrow> None
      | Inr img \<Rightarrow> if in_bounds img p then Some (img_px img p) else None)"

text \<open>The dimensions of the image a function returned.\<close>

definition dimensions :: "error + image \<Rightarrow> (int \<times> int) option" where
  "dimensions r = (case r of Inl e \<Rightarrow> None | Inr img \<Rightarrow> Some (img_width img, img_height img))"

text \<open>
  A small back end for concrete evaluation. It fills the bounding box of a polygon and
  of an ellipse, resamples by nearest neighbour and loads every font file it is given;
  a caption is a solid bar of 8 by 10 pixels per character. Every theorem below holds for
  all back ends; this one only supplies concrete instances.
\<close>

definition box_covers :: "(int \<times> int) list \<Rightarrow> int \<times> int \<Rightarrow> bool" where
  "box_covers points p =
     (list_ex (\<lambda>q. fst q \<le> fst p) points \<and> list_ex (\<lambda>q. fst p \<le> fst q) points \<and>
      list_ex (\<lambda>q. snd q \<le> snd p) points \<and> list_ex (\<lambda>q. snd p \<le> snd q) points)"

definition bar_covers :: "rat \<times> rat \<times> rat \<times> rat \<Rightarrow> int \<times> int \<Rightarrow> bool" where
  "bar_covers box p =
     (fst box \<le> of_int (fst p) \<and> of_int (fst p) \<le> fst (snd (snd box)) \<and>
      fst (snd box) \<le> of_int (snd p) \<and> of_int (snd p) \<le> snd (snd (snd box)))"

definition caption_box :: "rat \<times> rat \<Rightarrow> string \<Rightarrow> rat \<times> rat \<times> rat \<times> rat" where
  "caption_box xy txt = (fst xy, snd xy, fst xy + 8 * of_nat (length txt), snd xy + 10)"

definition demo_pillow :: "unit pillow" where
  "demo_pillow =
     \<lparr>pil_line_covers = (\<lambda>a b p. p = a \<or> p = b),
      pil_polygon_covers = box_covers,
      pil_ellipse_covers = bar_covers,
      pil_resample = (\<lambda>img sz p.
         img_px img (fst p * img_width img div fst sz, snd p * img_height img div snd sz)),
      pil_truetype = (\<lambda>path sz.
         if sz < 1 then Inl (ValueError ''font size must be greater than 0'') else Inr ()),
      pil_textbbox = (\<lambda>font xy txt. Inr (caption_box xy txt)),
      pil_text = (\<lambda>font xy txt fill.
         Inr (\<lambda>p. if bar_covers (caption_box xy txt) p then Some (\<lambda>old. fill) else None))\<rparr>"


text \<open>An empty working directory on a system without any of the candidate fonts.\<close>

definition empty_world :: world where
  "empty_world = \<lparr>fs_dirs = {}, fs_files = Map.empty, stdout = []\<rparr>"


section \<open>What the layers look like\<close>

text \<open>
  The pixels that the three polygons of \<open>draw_airplane\<close> cover, and the three layers
  described pixel by pixel: the claims compare the images the script builds with these.
\<close>

definition airplane_covers :: "'f pillow \<Rightarrow> int \<Rightarrow> int \<Rightarrow> int \<Rightarrow> int \<times> int \<Rightarrow> bool" where
  "airplane_covers pil center_x center_y sz p =
     (pil_polygon_covers pil (body_points center_x center_y sz) p \<or>
      pil_polygon_covers pil (wing_points center_x center_y sz) p \<or>
      pil_polygon_covers pil (tail_points center_x center_y sz) p)"

definition inside :: "int \<Rightarrow> int \<Rightarrow> int \<times> int \<Rightarrow> bool" where
  "inside width height p = (0 \<le> fst p \<and> fst p < width \<and> 0 \<le> snd p \<and> snd p < height)"

text \<open>
  The front layer without a caption: the white airplane, its shadow two pixels to the
  right and below where the airplane does not hide it, and transparency elsewhere.
\<close>

definition airplane_only :: "'f pillow \<Rightarrow> int \<Rightarrow> int \<Rightarrow> image" where
  "airplane_only pil width height =
     \<lparr>img_width = width, img_height = height,
      img_px = (\<lambda>p.
        if inside width height p \<and>
           airplane_covers pil (width div 2) (height div 2 - 20) (min width height div 4) p
        then (255, 255, 255, 255)
        else if inside width height p \<and>
           airplane_covers pil (width div 2 + 2) (height div 2 - 20 + 2) (min width height div 4) p
        then (0, 0, 0, 100)
        else (0, 0, 0, 0))\<rparr>"

text \<open>The back layer: every row in its interpolated colour.\<close>

definition sky_gradient :: "int \<Rightarrow> int \<Rightarrow> image" where
  "sky_gradient width height =
     \<lparr>img_width = width, img_height = height,
      img_px = (\<lambda>p. if inside width height p then gradient_color (snd p) height
                     else (0, 0, 0, 0))\<rparr>"

text \<open>The middle layer: two ellipses in one colour on a transparent canvas.\<close>

definition left_cloud :: "int \<Rightarrow> int \<Rightarrow> rat \<times> rat \<times> rat \<times> rat" where
  "left_cloud width height =
     (of_int width / 10, 3 * of_int height / 10, 3 * of_int width / 10, of_int height / 2)"

definition right_cloud :: "int \<Rightarrow> int \<Rightarrow> rat \<times> rat \<times> rat \<times> rat" where
  "right_cloud width height =
     (7 * of_int width / 10, 2 * of_int height / 5, 9 * of_int width / 10, 3 * of_int height / 5)"

definition two_clouds :: "'f pillow \<Rightarrow> int \<Rightarrow> int \<Rightarrow> image" where
  "two_clouds pil width height =
     \<lparr>img_width = width, img_height = height,
      img_px = (\<lambda>p.
        if inside width height p \<and>
           (pil_ellipse_covers pil (left_cloud width height) p \<or>
            pil_ellipse_covers pil (right_cloud width height) p)
        then (255, 255, 255, 80)
        else (0, 0, 0, 0))\<rparr>"

text \<open>No candidate font path exists.\<close>

definition no_font_installed :: "world \<Rightarrow> bool" where
  "no_font_installed w = (\<not> list_ex (os_path_exists w) font_paths)"

text \<open>What a function that returns a value and a world has printed, and what it returned.\<close>

definition printed :: "error + ('a \<times> world) \<Rightarrow> string list option" where
  "printed r = (case r of Inl e \<Rightarrow> None | Inr (x, w) \<Rightarrow> Some (stdout w))"

definition returned :: "error + ('a \<times> world) \<Rightarrow> error + 'a" where
  "returned r = (case r of Inl e \<Rightarrow> Inl e | Inr (x, w) \<Rightarrow> Inr x)"


text \<open>The three paths of an image set, as \<open>save_imageset\<close> forms them.\<close>

definition imageset_dir :: "string \<Rightarrow> string \<Rightarrow> string" where
  "imageset_dir base_path name = os_path_join base_path (name @ ''.imageset'')"

definition png_1x :: "string \<Rightarrow> string \<Rightarrow> string" where
  "png_1x base_path name = os_path_join (imageset_dir base_path name) (name @ ''.png'')"

definition png_2x :: "string \<Rightarrow> string \<Rightarrow> string" where
  "png_2x base_path name = os_path_join (imageset_dir base_path name) (name @ ''@2x.png'')"

definition contents_json :: "string \<Rightarrow> string \<Rightarrow> string" where
  "contents_json base_path name = os_path_join (imageset_dir base_path name) ''Contents.json''"

text \<open>What is stored at a path of the world a function returned.\<close>

definition stored :: "error + world \<Rightarrow> string \<Rightarrow> content option" where
  "stored r p = (case r of Inl e \<Rightarrow> None | Inr w \<Rightarrow> fs_files w p)"

definition png_size :: "error + world \<Rightarrow> string \<Rightarrow> (int \<times> int) option" where
  "png_size r p =
     (case stored r p of
        Some (PngFile img) \<Rightarrow> Some (img_width img, img_height img)
      | _ \<Rightarrow> None)"

text \<open>
  The six files \<open>main\<close> writes, and what it needs of the working directory: no regular
  file named \<open>AppIconAssets\<close>, and no directory where a preview is to be written.
\<close>

definition preview_files :: "string list" where
  "preview_files =
     [''AppIconAssets/Front-preview.png'',
      ''AppIconAssets/Back-preview.png'',
      ''AppIconAssets/Middle-preview.png'',
      ''AppIconAssets/Front-AppStore-preview.png'',
      ''AppIconAssets/Back-AppStore-preview.png'',
      ''AppIconAssets/Middle-AppStore-preview.png'']"

definition output_writable :: "world \<Rightarrow> bool" where
  "output_writable w =
     (fs_files w ''AppIconAssets'' = None \<and> \<not> list_ex (\<lambda>p. p \<in> fs_dirs w) preview_files)"

text \<open>
  The world \<open>main\<close> leaves behind when no caption is drawn: the output directory, the
  three layers at 400 by 240 and at 1280 by 768, and the progress and next-steps lines.
\<close>

definition preview_world :: "'f pillow \<Rightarrow> world \<Rightarrow> world" where
  "preview_world pil w =
     \<lparr>fs_dirs = insert ''AppIconAssets'' (fs_dirs w),
      fs_files = (fs_files w)
        (''AppIconAssets/Front-preview.png'' \<mapsto> PngFile (airplane_only pil 400 240),
         ''AppIconAssets/Back-preview.png'' \<mapsto> PngFile (sky_gradient 400 240),
         ''AppIconAssets/Middle-preview.png'' \<mapsto> PngFile (two_clouds pil 400 240),
         ''AppIconAssets/Front-AppStore-preview.png'' \<mapsto> PngFile (airplane_only pil 1280 768),
         ''AppIconAssets/Back-AppStore-preview.png'' \<mapsto> PngFile (sky_gradient 1280 768),
         ''AppIconAssets/Middle-AppStore-preview.png'' \<mapsto> PngFile (two_clouds pil 1280 768)),
      stdout = stdout w @
        [banner_line, icon_layers_line, preview_saved_line ''AppIconAssets'', store_layers_line,
         done_line] @ next_steps\<rparr>"

text \<open>The paths of all regular files in the world a function returned.\<close>

definition listing :: "error + world \<Rightarrow> string set" where
  "listing r = (case r of Inl e \<Rightarrow> {} | Inr w \<Rightarrow> dom (fs_files w))"

section \<open>Drawing primitives\<close>

lemma paint_simps [simp]:
  "img_width (paint c f img) = img_width img"
  "img_height (paint c f img) = img_height img"
  "in_bounds (paint c f img) p = in_bounds img p"
  "img_px (paint c f img) p = (if in_bounds img p \<and> c p then f else img_px img p)"
  by (simp_all add: paint_def in_bounds_def)

lemma Image_new_ok:
  "0 \<le> width \<Longrightarrow> 0 \<le> height \<Longrightarrow>
   Image_new (width, height) c = Inr \<lparr>img_width = width, img_height = height, img_px = (\<lambda>_. c)\<rparr>"
  by (simp add: Image_new_def)

lemma Image_new_neg:
  "width < 0 \<or> height < 0 \<Longrightarrow>
   Image_new (width, height) c = Inl (ValueError ''Width and height must be >= 0'')"
  by (auto simp add: Image_new_def)

section \<open>The gradient, row by row\<close>

lemma gradient_line_simps [simp]:
  "img_width (gradient_line pil width height y img) = img_width img"
  "img_height (gradient_line pil width height y img) = img_height img"
  "in_bounds (gradient_line pil width height y img) p = in_bounds img p"
  by (simp_all add: gradient_line_def draw_line_def)

lemma gradient_line_px:
  "img_px (gradient_line pil width height y img) p =
     (if in_bounds img p \<and> snd p = y \<and> min 0 width \<le> fst p \<and> fst p \<le> max 0 width
      then gradient_color y height else img_px img p)"
  by (simp add: gradient_line_def draw_line_def line_covers_def)

lemma fold_gradient_dims [simp]:
  "img_width (fold (gradient_line pil width height) ys img) = img_width img"
  "img_height (fold (gradient_line pil width height) ys img) = img_height img"
  "in_bounds (fold (gradient_line pil width height) ys img) p = in_bounds img p"
  by (induction ys arbitrary: img) simp_all

lemma fold_gradient_px:
  "img_px (fold (gradient_line pil width height) ys img) p =
     (if in_bounds img p \<and> snd p \<in> set ys \<and> min 0 width \<le> fst p \<and> fst p \<le> max 0 width
      then gradient_color (snd p) height else img_px img p)"
proof (induction ys arbitrary: img)
  case Nil
  show ?case by simp
next
  case (Cons y ys)
  show ?case
    by (simp add: Cons.IH gradient_line_px)
qed

lemma create_gradient_ok:
  assumes "0 \<le> width" "0 \<le> height"
  shows "\<exists>img. create_gradient pil width height = Inr img \<and>
           img_width img = width \<and> img_height img = height \<and>
           (\<forall>p. in_bounds img p \<longrightarrow> img_px img p = gradient_color (snd p) height)"
  using assms
  by (auto simp add: create_gradient_def Image_new_ok fold_gradient_px py_range_def in_bounds_def)

lemma create_gradient_neg:
  assumes "width < 0 \<or> height < 0"
  shows "create_gradient pil width height = Inl (ValueError ''Width and height must be >= 0'')"
  using assms by (simp add: create_gradient_def Image_new_neg)

lemma getpixel_gradient:
  assumes "0 \<le> x" "x < width" "0 \<le> y" "y < height"
  shows "getpixel (create_gradient pil width height) (x, y) = Some (gradient_color y height)"
proof -
  obtain img where img: "create_gradient pil width height = Inr img"
      "img_width img = width" "img_height img = height"
      "\<forall>p. in_bounds img p \<longrightarrow> img_px img p = gradient_color (snd p) height"
    using create_gradient_ok [of width height pil] assms by auto
  have "in_bounds img (x, y)"
    using assms img(2,3) by (simp add: in_bounds_def)
  with img(1,4) show ?thesis
    by (simp add: getpixel_def)
qed

lemma py_int_affine:
  assumes "0 < h" "0 \<le> a * h + b * y"
  shows "py_int (of_int a + of_int b * (of_int y / of_int h)) = a + (b * y) div h"
proof -
  let ?x = "(of_int a + of_int b * (of_int y / of_int h) :: rat)"
  have eq: "?x = of_int (a * h + b * y) / of_int h"
    using assms(1) by (simp add: field_simps)
  have "0 \<le> (of_int (a * h + b * y) :: rat)"
    using assms(2) by (simp only: of_int_0_le_iff)
  then have "0 \<le> ?x"
    unfolding eq using assms(1) by (intro divide_nonneg_pos) simp_all
  then have "py_int ?x = \<lfloor>?x\<rfloor>"
    by (simp add: py_int_def)
  also have "\<dots> = a + \<lfloor>(of_int (b * y) / of_int h :: rat)\<rfloor>"
    by (simp only: int_add_floor of_int_mult times_divide_eq_right)
  also have "\<dots> = a + (b * y) div h"
    by (simp only: floor_divide_of_int_eq)
  finally show ?thesis .
qed

lemma gradient_color_closed:
  assumes "0 \<le> y" "y < height"
  shows "gradient_color y height =
           (135 + 38 * y div height, 206 + 10 * y div height, 235 + (- 5 * y) div height, 255)"
proof -
  let ?q = "(of_int y / of_int height :: rat)"
  have h: "0 < height" using assms by simp
  have "py_int (135 + (173 - 135) * ?q) = py_int (of_int 135 + of_int 38 * ?q)"
    by simp
  also have "\<dots> = 135 + 38 * y div height"
    using h assms by (intro py_int_affine) auto
  finally have r: "py_int (135 + (173 - 135) * ?q) = 135 + 38 * y div height" .
  have "py_int (206 + (216 - 206) * ?q) = py_int (of_int 206 + of_int 10 * ?q)"
    by simp
  also have "\<dots> = 206 + 10 * y div height"
    using h assms by (intro py_int_affine) auto
  finally have g: "py_int (206 + (216 - 206) * ?q) = 206 + 10 * y div height" .
  have "py_int (235 + (230 - 235) * ?q) = py_int (of_int 235 + of_int (- 5) * ?q)"
    by simp
  also have "\<dots> = 235 + (- 5 * y) div height"
    using h assms by (intro py_int_affine) auto
  finally have b: "py_int (235 + (230 - 235) * ?q) = 235 + (- 5 * y) div height" .
  show ?thesis
    unfolding gradient_color_def Let_def r g b ..
qed

lemma gradient_color_top: "gradient_color 0 height = (135, 206, 235, 255)"
  by (simp add: gradient_color_def py_int_def)

lemma gradient_color_last:
  assumes "0 < height"
  shows "gradient_color (height - 1) height =
      (135 + 38 * (height - 1) div height, 206 + 10 * (height - 1) div height,
       235 + (- 5 * (height - 1)) div height, 255)"
  using assms by (intro gradient_color_closed) simp_all

lemma gradient_color_bottom:
  assumes "38 \<le> height"
  shows "gradient_color (height - 1) height = (172, 215, 230, 255)"
proof -
  have r: "38 * (height - 1) div height = 37"
    using assms by (intro int_div_pos_eq [where r = "height - 38"]) simp_all
  have g: "10 * (height - 1) div height = 9"
    using assms by (intro int_div_pos_eq [where r = "height - 10"]) simp_all
  have b: "(- 5 * (height - 1)) div height = - 5"
    using assms by (intro int_div_pos_eq [where r = 5]) simp_all
  have "gradient_color (height - 1) height =
      (135 + 38 * (height - 1) div height, 206 + 10 * (height - 1) div height,
       235 + (- 5 * (height - 1)) div height, 255)"
    using assms by (intro gradient_color_closed) simp_all
  then show ?thesis
    by (simp only: r g b) simp
qed

lemma gradient_color_short:
  assumes "0 < height"
  shows "fst (gradient_color (height - 1) height) < 173"
    and "fst (snd (gradient_color (height - 1) height)) < 216"
proof -
  have closed: "gradient_color (height - 1) height =
      (135 + 38 * (height - 1) div height, 206 + 10 * (height - 1) div height,
       235 + (- 5 * (height - 1)) div height, 255)"
    using assms by (intro gradient_color_closed) simp_all
  have "38 * (height - 1) div height \<le> (38 * height - 1) div height"
    using assms by (intro zdiv_mono1) simp_all
  also have "(38 * height - 1) div height = 37"
    using assms by (intro int_div_pos_eq [where r = "height - 1"]) simp_all
  finally have r: "38 * (height - 1) div height \<le> 37" .
  have "10 * (height - 1) div height \<le> (10 * height - 1) div height"
    using assms by (intro zdiv_mono1) simp_all
  also have "(10 * height - 1) div height = 9"
    using assms by (intro int_div_pos_eq [where r = "height - 1"]) simp_all
  finally have g: "10 * (height - 1) div height \<le> 9" .
  show "fst (gradient_color (height - 1) height) < 173"
    unfolding closed using r by simp
  show "fst (snd (gradient_color (height - 1) height)) < 216"
    unfolding closed using g by simp
qed

section \<open>The layers, pixel by pixel\<close>

lemma draw_polygon_simps [simp]:
  "img_width (draw_polygon pil pts f img) = img_width img"
  "img_height (draw_polygon pil pts f img) = img_height img"
  "in_bounds (draw_polygon pil pts f img) p = in_bounds img p"
  "img_px (draw_polygon pil pts f img) p =
     (if in_bounds img p \<and> pil_polygon_covers pil pts p then f else img_px img p)"
  by (simp_all add: draw_polygon_def)

lemma draw_ellipse_simps [simp]:
  "img_width (draw_ellipse pil box f img) = img_width img"
  "img_height (draw_ellipse pil box f img) = img_height img"
  "in_bounds (draw_ellipse pil box f img) p = in_bounds img p"
  "img_px (draw_ellipse pil box f img) p =
     (if in_bounds img p \<and> pil_ellipse_covers pil box p then f else img_px img p)"
  by (simp_all add: draw_ellipse_def)

lemma draw_airplane_simps [simp]:
  "img_width (draw_airplane pil cx cy sz c img) = img_width img"
  "img_height (draw_airplane pil cx cy sz c img) = img_height img"
  "in_bounds (draw_airplane pil cx cy sz c img) p = in_bounds img p"
  "img_px (draw_airplane pil cx cy sz c img) p =
     (if in_bounds img p \<and> airplane_covers pil cx cy sz p then c else img_px img p)"
  by (auto simp add: draw_airplane_def airplane_covers_def)

lemma image_eqI:
  fixes a b :: image
  assumes "img_width a = img_width b" "img_height a = img_height b"
    "\<And>p. img_px a p = img_px b p"
  shows "a = b"
proof -
  have "img_px a = img_px b" using assms(3) by (rule ext)
  with assms(1,2) show ?thesis by simp
qed

lemma in_bounds_new [simp]:
  "in_bounds \<lparr>img_width = width, img_height = height, img_px = f\<rparr> p = inside width height p"
  by (simp add: in_bounds_def inside_def)

lemma create_gradient_sky:
  assumes "0 \<le> width" "0 \<le> height"
  shows "create_gradient pil width height = Inr (sky_gradient width height)"
proof -
  have "fold (gradient_line pil width height) (py_range height)
          \<lparr>img_width = width, img_height = height, img_px = (\<lambda>_. (0, 0, 0, 0))\<rparr> =
        sky_gradient width height"
    by (rule image_eqI)
      (auto simp add: sky_gradient_def fold_gradient_px py_range_def inside_def)
  with assms show ?thesis
    by (simp add: create_gradient_def Image_new_ok)
qed

lemma create_middle_layer_clouds:
  assumes "0 \<le> width" "0 \<le> height"
  shows "create_middle_layer pil width height = Inr (two_clouds pil width height)"
proof -
  have boxes:
    "(of_int width * (1 / 10), of_int height * (3 / 10),
      of_int width * (3 / 10), of_int height * (5 / 10)) = left_cloud width height"
    "(of_int width * (7 / 10), of_int height * (4 / 10),
      of_int width * (9 / 10), of_int height * (6 / 10)) = right_cloud width height"
    by (simp_all add: left_cloud_def right_cloud_def)
  show ?thesis
    unfolding create_middle_layer_def Image_new_ok [OF assms] boxes Let_def sum.case
    by (intro arg_cong [where f = Inr] image_eqI)
       (auto simp add: two_clouds_def cloud_color_def)
qed

lemma find_font_none:
  assumes "\<not> list_ex (os_path_exists w) ps"
  shows "find_font pil w sz ps = Inr None"
  using assms by (induction ps) simp_all

lemma add_text_no_font:
  assumes "no_font_installed w"
  shows "add_text pil width height w img = (img, None)"
  using assms by (simp add: add_text_def no_font_installed_def find_font_none)


lemma airplanes_drawn:
  "draw_airplane pil (width div 2) (height div 2 - 20) (min width height div 4) (255, 255, 255, 255)
     (draw_airplane pil (width div 2 + 2) (height div 2 - 20 + 2) (min width height div 4) (0, 0, 0, 100)
        \<lparr>img_width = width, img_height = height, img_px = (\<lambda>_. (0, 0, 0, 0))\<rparr>) =
   airplane_only pil width height"
  by (rule image_eqI) (auto simp add: airplane_only_def)

lemma create_front_layer_unfold:
  assumes "0 \<le> width" "0 \<le> height"
  shows "create_front_layer pil width height w =
     (case add_text pil width height w (airplane_only pil width height) of
        (img3, None) \<Rightarrow> Inr (img3, w)
      | (img3, Some e) \<Rightarrow>
          Inr (img3, print (warning_sign @ ''  Could not add text: '' @ error_str e) w))"
  unfolding create_front_layer_def Image_new_ok [OF assms] Let_def sum.case airplanes_drawn ..

lemma create_front_layer_no_font:
  assumes "0 \<le> width" "0 \<le> height" "no_font_installed w"
  shows "create_front_layer pil width height w = Inr (airplane_only pil width height, w)"
  by (simp add: create_front_layer_unfold [OF assms(1,2)] add_text_no_font [OF assms(3)])


section \<open>The caption\<close>

lemma draw_text_Inr:
  assumes "draw_text pil font xy txt fill img = Inr img'"
  shows "img_width img' = img_width img" "img_height img' = img_height img"
    "in_bounds img' p = in_bounds img p"
  using assms by (auto simp add: draw_text_def in_bounds_def split: sum.splits)

lemma add_text_dims [simp]:
  "img_width (fst (add_text pil width height w img)) = img_width img"
  "img_height (fst (add_text pil width height w img)) = img_height img"
  by (auto simp add: add_text_def Let_def draw_text_Inr split: sum.splits option.splits)


lemma create_front_layer_Inr:
  assumes "0 \<le> width" "0 \<le> height"
  shows "\<exists>img warn. create_front_layer pil width height w = Inr (img, w\<lparr>stdout := stdout w @ warn\<rparr>) \<and>
           img_width img = width \<and> img_height img = height \<and> length warn \<le> 1"
proof (cases "add_text pil width height w (airplane_only pil width height)")
  case (Pair img3 err)
  have "img_width (fst (add_text pil width height w (airplane_only pil width height))) =
        img_width (airplane_only pil width height)"
      "img_height (fst (add_text pil width height w (airplane_only pil width height))) =
        img_height (airplane_only pil width height)"
    by simp_all
  then have dims: "img_width img3 = width" "img_height img3 = height"
    unfolding Pair by (simp_all add: airplane_only_def)
  show ?thesis
  proof (cases err)
    case None
    have "create_front_layer pil width height w = Inr (img3, w\<lparr>stdout := stdout w @ []\<rparr>)"
      by (simp add: create_front_layer_unfold [OF assms] Pair None)
    with dims show ?thesis by (metis list.size(3) zero_le)
  next
    case (Some e)
    have "create_front_layer pil width height w =
        Inr (img3, w\<lparr>stdout := stdout w @ [warning_sign @ ''  Could not add text: '' @ error_str e]\<rparr>)"
      by (simp add: create_front_layer_unfold [OF assms] Pair Some print_def)
    with dims show ?thesis
      by (metis One_nat_def le_refl length_Cons list.size(3))
  qed
qed

lemma create_front_layer_neg:
  assumes "width < 0 \<or> height < 0"
  shows "create_front_layer pil width height w = Inl (ValueError ''Width and height must be >= 0'')"
  using assms by (simp add: create_front_layer_def Image_new_neg)

lemma create_middle_layer_neg:
  assumes "width < 0 \<or> height < 0"
  shows "create_middle_layer pil width height = Inl (ValueError ''Width and height must be >= 0'')"
  using assms by (simp add: create_middle_layer_def Image_new_neg)

section \<open>Files, directories and the export step\<close>

lemma and_then_simps [simp]:
  "and_then (Inl e) f = Inl e"
  "and_then (Inr x) f = f x"
  by (simp_all add: and_then_def)

lemma and_then_Inr_iff:
  "and_then m f = Inr y \<longleftrightarrow> (\<exists>x. m = Inr x \<and> f x = Inr y)"
  by (cases m) simp_all

lemma print_simps [simp]:
  "fs_dirs (print l w) = fs_dirs w"
  "fs_files (print l w) = fs_files w"
  "stdout (print l w) = stdout w @ [l]"
  by (simp_all add: print_def)

lemma write_file_Inr_iff:
  "write_file p c w = Inr w' \<longleftrightarrow>
     p \<noteq> [] \<and> \<not> is_dir w p \<and> fs_files w (os_path_dirname p) = None \<and>
     is_dir w (os_path_dirname p) \<and> w' = w\<lparr>fs_files := (fs_files w)(p \<mapsto> c)\<rparr>"
  by (auto simp add: write_file_def)

lemma os_makedirs_Inr_iff:
  "os_makedirs p w = Inr w' \<longleftrightarrow>
     p \<noteq> [] \<and> fs_files w p = None \<and> \<not> list_ex (\<lambda>d. fs_files w d \<noteq> None) (ancestors p) \<and>
     w' = w\<lparr>fs_dirs := fs_dirs w \<union> set (p # ancestors p)\<rparr>"
  by (auto simp add: os_makedirs_def)

lemma is_dir_files [simp]: "is_dir (w\<lparr>fs_files := f\<rparr>) d = is_dir w d"
  by (simp add: is_dir_def)

lemma is_dir_print [simp]: "is_dir (print l w) d = is_dir w d"
  by (simp add: is_dir_def)

lemma last_os_path_join: "b \<noteq> [] \<Longrightarrow> last (os_path_join a b) = last b"
  by (simp add: os_path_join_def)

lemma png_1x_neq_2x: "png_1x base_path name \<noteq> png_2x base_path name"
  by (cases name) (auto simp add: png_1x_def png_2x_def os_path_join_def)

lemma contents_json_neq:
  "contents_json base_path name \<noteq> png_1x base_path name"
  "contents_json base_path name \<noteq> png_2x base_path name"
proof -
  have "last (contents_json base_path name) = CHR ''n''"
    by (simp add: contents_json_def last_os_path_join)
  moreover have "last (png_1x base_path name) = CHR ''g''"
    by (simp add: png_1x_def last_os_path_join)
  moreover have "last (png_2x base_path name) = CHR ''g''"
    by (simp add: png_2x_def last_os_path_join)
  ultimately show "contents_json base_path name \<noteq> png_1x base_path name"
    "contents_json base_path name \<noteq> png_2x base_path name"
    by auto
qed

text \<open>The export step, when it returns.\<close>

lemma save_imageset_Inr:
  assumes "save_imageset pil img base_path name w = Inr w'"
  shows "\<exists>img_2x.
     Image_resize pil img (img_width img * 2, img_height img * 2) = Inr img_2x \<and>
     w' = \<lparr>fs_dirs = fs_dirs w \<union> set (imageset_dir base_path name # ancestors (imageset_dir base_path name)),
           fs_files = (fs_files w)(png_1x base_path name \<mapsto> PngFile img,
                                   png_2x base_path name \<mapsto> PngFile img_2x,
                                   contents_json base_path name \<mapsto> JsonFile (contents name)),
           stdout = stdout w @ [check_mark @ '' Created '' @ name @ '' @ 1x and 2x'']\<rparr>"
  using assms
  unfolding save_imageset_def Let_def Image_save_def json_dump_to_def
    imageset_dir_def [symmetric] 
  apply (simp only: png_1x_def [symmetric] png_2x_def [symmetric] contents_json_def [symmetric])
  apply (auto simp add: and_then_Inr_iff write_file_Inr_iff os_makedirs_Inr_iff print_def)
  done

section \<open>The driver, step by step\<close>

lemma fold_print: "fold print ls w = w\<lparr>stdout := stdout w @ ls\<rparr>"
  by (induction ls arbitrary: w) (simp_all add: print_def)

lemma ancestors_output_dir: "ancestors ''AppIconAssets'' = []"
  by (subst ancestors.simps) (simp add: os_path_dirname_def)

lemma join_previews:
  "os_path_join ''AppIconAssets'' ''Front-preview.png'' = ''AppIconAssets/Front-preview.png''"
  "os_path_join ''AppIconAssets'' ''Back-preview.png'' = ''AppIconAssets/Back-preview.png''"
  "os_path_join ''AppIconAssets'' ''Middle-preview.png'' = ''AppIconAssets/Middle-preview.png''"
  "os_path_join ''AppIconAssets'' ''Front-AppStore-preview.png'' = ''AppIconAssets/Front-AppStore-preview.png''"
  "os_path_join ''AppIconAssets'' ''Back-AppStore-preview.png'' = ''AppIconAssets/Back-AppStore-preview.png''"
  "os_path_join ''AppIconAssets'' ''Middle-AppStore-preview.png'' = ''AppIconAssets/Middle-AppStore-preview.png''"
  by (simp_all add: os_path_join_def)

lemma dirname_previews:
  "os_path_dirname ''AppIconAssets/Front-preview.png'' = ''AppIconAssets''"
  "os_path_dirname ''AppIconAssets/Back-preview.png'' = ''AppIconAssets''"
  "os_path_dirname ''AppIconAssets/Middle-preview.png'' = ''AppIconAssets''"
  "os_path_dirname ''AppIconAssets/Front-AppStore-preview.png'' = ''AppIconAssets''"
  "os_path_dirname ''AppIconAssets/Back-AppStore-preview.png'' = ''AppIconAssets''"
  "os_path_dirname ''AppIconAssets/Middle-AppStore-preview.png'' = ''AppIconAssets''"
  by (simp_all add: os_path_dirname_def)

lemma makedirs_output_dir:
  assumes "fs_files w ''AppIconAssets'' = None"
  shows "os_makedirs ''AppIconAssets'' w = Inr (w\<lparr>fs_dirs := insert ''AppIconAssets'' (fs_dirs w)\<rparr>)"
  using assms by (simp add: os_makedirs_def ancestors_output_dir)

text \<open>Writing a preview into the output directory.\<close>

lemma write_preview:
  assumes "os_path_dirname p = ''AppIconAssets''" "''AppIconAssets'' \<in> fs_dirs w"
    "fs_files w ''AppIconAssets'' = None" "p \<notin> fs_dirs w" "p \<noteq> []" "p \<noteq> ''/''"
  shows "write_file p c w = Inr (w\<lparr>fs_files := (fs_files w)(p \<mapsto> c)\<rparr>)"
  using assms by (simp add: write_file_def is_dir_def)

lemma no_font_installed_iff:
  "no_font_installed w \<longleftrightarrow>
     (''/System/Library/Fonts/Helvetica.ttc'' \<notin> fs_dirs w \<and>
      fs_files w ''/System/Library/Fonts/Helvetica.ttc'' = None) \<and>
     (''/System/Library/Fonts/SFCompact.ttf'' \<notin> fs_dirs w \<and>
      fs_files w ''/System/Library/Fonts/SFCompact.ttf'' = None) \<and>
     (''/usr/share/fonts/truetype/dejavu/DejaVuSans-Bold.ttf'' \<notin> fs_dirs w \<and>
      fs_files w ''/usr/share/fonts/truetype/dejavu/DejaVuSans-Bold.ttf'' = None)"
  by (auto simp add: no_font_installed_def font_paths_def os_path_exists_def)

lemma main_no_font:
  assumes "no_font_installed w" "output_writable w"
  shows "main pil w = Inr (preview_world pil w)"
proof -
  have files: "fs_files w ''AppIconAssets'' = None"
    and dirs: "''AppIconAssets/Front-preview.png'' \<notin> fs_dirs w"
      "''AppIconAssets/Back-preview.png'' \<notin> fs_dirs w"
      "''AppIconAssets/Middle-preview.png'' \<notin> fs_dirs w"
      "''AppIconAssets/Front-AppStore-preview.png'' \<notin> fs_dirs w"
      "''AppIconAssets/Back-AppStore-preview.png'' \<notin> fs_dirs w"
      "''AppIconAssets/Middle-AppStore-preview.png'' \<notin> fs_dirs w"
    using assms(2) by (simp_all add: output_writable_def preview_files_def)
  note fonts = assms(1) [unfolded no_font_installed_iff]
  have layers:
    "create_front_layer pil 400 240 v = Inr (airplane_only pil 400 240, v)"
    "create_front_layer pil 1280 768 v = Inr (airplane_only pil 1280 768, v)"
    if "no_font_installed v" for v
    using that by (simp_all add: create_front_layer_no_font)
  show ?thesis
    unfolding main_def Let_def
    by (simp add: makedirs_output_dir files dirs fonts layers no_font_installed_iff
        create_back_layer_def create_gradient_sky create_middle_layer_clouds
        Image_save_def join_previews write_preview dirname_previews
        fold_print preview_world_def print_def)
qed

lemma preview_world_sizes:
  "map (png_size (Inr (preview_world pil w))) preview_files =
     [Some (400, 240), Some (400, 240), Some (400, 240),
      Some (1280, 768), Some (1280, 768), Some (1280, 768)]"
  by (simp add: png_size_def stored_def preview_world_def preview_files_def
      airplane_only_def sky_gradient_def two_clouds_def)

lemma preview_world_listing:
  "listing (Inr (preview_world pil w)) = dom (fs_files w) \<union> set preview_files"
  by (auto simp add: listing_def preview_world_def preview_files_def)

lemma preview_world_other:
  "p \<notin> set preview_files \<Longrightarrow> stored (Inr (preview_world pil w)) p = fs_files w p"
  by (simp add: stored_def preview_world_def preview_files_def)

lemma empty_world_ready: "no_font_installed empty_world" "output_writable empty_world"
  by (simp_all add: no_font_installed_iff output_writable_def empty_world_def preview_files_def)

section \<open>What the driver prints\<close>

lemma os_makedirs_stdout: "os_makedirs p w = Inr w' \<Longrightarrow> stdout w' = stdout w"
  by (auto simp add: os_makedirs_Inr_iff)

lemma Image_save_stdout: "Image_save img p w = Inr w' \<Longrightarrow> stdout w' = stdout w"
  by (auto simp add: Image_save_def write_file_Inr_iff)

lemma create_front_layer_stdout:
  assumes "0 \<le> width" "0 \<le> height" "create_front_layer pil width height w = Inr (img, w')"
  shows "\<exists>warn. stdout w' = stdout w @ warn \<and> length warn \<le> 1"
  using create_front_layer_Inr [OF assms(1,2), of pil w] assms(3) by auto

lemma main_Inr_stdout:
  assumes "main pil w = Inr w'"
  shows "\<exists>warn1 warn2.
     stdout w' = stdout w @ [banner_line, icon_layers_line] @ warn1 @
       [preview_saved_line ''AppIconAssets'', store_layers_line] @ warn2 @ done_line # next_steps \<and>
     length warn1 \<le> 1 \<and> length warn2 \<le> 1"
proof -
  have front: "\<exists>warn. stdout v' = stdout v @ warn \<and> length warn \<le> 1"
    if "create_front_layer pil 400 240 v = Inr (img, v') \<or>
        create_front_layer pil 1280 768 v = Inr (img, v')" for v v' img
    using that create_front_layer_stdout [of 400 240 pil v img v']
      create_front_layer_stdout [of 1280 768 pil v img v'] by auto
  from assms have "\<exists>w1 img1 w2 w5 img2 w6.
      stdout w1 = stdout w @ [banner_line] \<and>
      create_front_layer pil 400 240 (print icon_layers_line w1) = Inr (img1, w2) \<and>
      stdout w5 = stdout w2 \<and>
      create_front_layer pil 1280 768
           (print store_layers_line (print (preview_saved_line ''AppIconAssets'') w5)) =
         Inr (img2, w6) \<and>
      stdout w' = stdout w6 @ done_line # next_steps"
    unfolding main_def Let_def
    apply (auto simp add: and_then_Inr_iff fold_print split: prod.splits
        dest!: os_makedirs_stdout Image_save_stdout)
    subgoal for x a b xa xb xc xd xe aa ba
      apply (rule exI [of _ x], simp)
      apply (rule exI [of _ xe], simp)
      done
    done
  then obtain w1 img1 w2 w5 img2 w6 where
    s1: "stdout w1 = stdout w @ [banner_line]" and
    s2: "create_front_layer pil 400 240 (print icon_layers_line w1) = Inr (img1, w2)" and
    s5: "stdout w5 = stdout w2" and
    s6: "create_front_layer pil 1280 768
           (print store_layers_line (print (preview_saved_line ''AppIconAssets'') w5)) =
         Inr (img2, w6)" and
    s10: "stdout w' = stdout w6 @ done_line # next_steps"
    by blast
  obtain warn1 where a: "stdout w2 = stdout (print icon_layers_line w1) @ warn1" "length warn1 \<le> 1"
    using front s2 by blast
  obtain warn2 where b: "stdout w6 =
      stdout (print store_layers_line (print (preview_saved_line ''AppIconAssets'') w5)) @ warn2"
      "length warn2 \<le> 1"
    using front s6 by blast
  have "stdout w' = stdout w @ [banner_line, icon_layers_line] @ warn1 @
       [preview_saved_line ''AppIconAssets'', store_layers_line] @ warn2 @ done_line # next_steps"
    by (simp add: s10 b(1) s5 a(1) s1)
  with a(2) b(2) show ?thesis by blast
qed

lemma script_None:
  "script None w =
     Inr (1, w\<lparr>stdout := stdout w @ [cross_mark @ '' PIL/Pillow not installed. Run: pip3 install pillow'']\<rparr>)"
  by (simp add: script_def print_def)

lemma script_Some:
  "script (Some pil) w = (case main pil w of Inl e \<Rightarrow> Inl e | Inr w' \<Rightarrow> Inr (0, w'))"
  by (simp add: script_def and_then_def)

section \<open>Running the export step again\<close>

lemma save_imageset_steps:
  assumes "save_imageset pil img base_path name w = Inr w1"
  obtains wa wb img_2x wc wd where
    "os_makedirs (imageset_dir base_path name) w = Inr wa"
    "write_file (png_1x base_path name) (PngFile img) wa = Inr wb"
    "Image_resize pil img (img_width img * 2, img_height img * 2) = Inr img_2x"
    "write_file (png_2x base_path name) (PngFile img_2x) wb = Inr wc"
    "write_file (contents_json base_path name) (JsonFile (contents name)) wc = Inr wd"
    "w1 = print (check_mark @ '' Created '' @ name @ '' @ 1x and 2x'') wd"
  using assms
  unfolding save_imageset_def Let_def Image_save_def json_dump_to_def and_then_Inr_iff
    imageset_dir_def png_1x_def png_2x_def contents_json_def
  by blast

lemma save_imageset_again:
  assumes "save_imageset pil img base_path name w = Inr w1"
  shows "save_imageset pil img base_path name w1 =
     Inr (w1\<lparr>stdout := stdout w1 @ [check_mark @ '' Created '' @ name @ '' @ 1x and 2x'']\<rparr>)"
proof -
  define d where "d = imageset_dir base_path name"
  define p1 where "p1 = png_1x base_path name"
  define p2 where "p2 = png_2x base_path name"
  define p3 where "p3 = contents_json base_path name"
  define D where "D = fs_dirs w \<union> set (d # ancestors d)"
  define c1 where "c1 = PngFile img"
  define c3 where "c3 = JsonFile (contents name)"
  define line where "line = check_mark @ '' Created '' @ name @ '' @ 1x and 2x''"
  from assms obtain wa wb img_2x wc wd where
    sa: "os_makedirs d w = Inr wa" and
    sb: "write_file p1 c1 wa = Inr wb" and
    rs: "Image_resize pil img (img_width img * 2, img_height img * 2) = Inr img_2x" and
    sc: "write_file p2 (PngFile img_2x) wb = Inr wc" and
    sd: "write_file p3 c3 wc = Inr wd" and
    w1: "w1 = print line wd"
    unfolding d_def p1_def p2_def p3_def c1_def c3_def line_def
    by (rule save_imageset_steps)
  define c2 where "c2 = PngFile img_2x"
  note sc = sc [folded c2_def]
  have wa: "wa = w\<lparr>fs_dirs := D\<rparr>" and
    mk: "d \<noteq> []" "fs_files w d = None" "\<not> list_ex (\<lambda>x. fs_files w x \<noteq> None) (ancestors d)"
    using sa by (simp_all add: os_makedirs_Inr_iff D_def)
  have wb: "wb = wa\<lparr>fs_files := (fs_files wa)(p1 \<mapsto> c1)\<rparr>" and
    f1: "p1 \<noteq> []" "\<not> is_dir wa p1" "fs_files wa (os_path_dirname p1) = None"
      "is_dir wa (os_path_dirname p1)"
    using sb by (simp_all add: write_file_Inr_iff)
  have wc: "wc = wb\<lparr>fs_files := (fs_files wb)(p2 \<mapsto> c2)\<rparr>" and
    f2: "p2 \<noteq> []" "\<not> is_dir wb p2" "fs_files wb (os_path_dirname p2) = None"
      "is_dir wb (os_path_dirname p2)"
    using sc by (simp_all add: write_file_Inr_iff)
  have wd: "wd = wc\<lparr>fs_files := (fs_files wc)(p3 \<mapsto> c3)\<rparr>" and
    f3: "p3 \<noteq> []" "\<not> is_dir wc p3" "fs_files wc (os_path_dirname p3) = None"
      "is_dir wc (os_path_dirname p3)"
    using sd by (simp_all add: write_file_Inr_iff)
  have dirs: "is_dir v x \<longleftrightarrow> is_dir wa x" if "fs_dirs v = D" for v x
    using that by (simp add: is_dir_def wa)
  have dirs1 [simp]: "fs_dirs w1 = D" "fs_dirs wb = D" "fs_dirs wc = D" "fs_dirs wa = D"
    by (simp_all add: w1 wd wc wb wa)
  have files1: "fs_files w1 = (fs_files w)(p1 \<mapsto> c1, p2 \<mapsto> c2, p3 \<mapsto> c3)"
    by (simp add: w1 wd wc wb wa)
  have not_file: "x \<noteq> p1 \<and> x \<noteq> p2 \<and> x \<noteq> p3" if "is_dir wa x" for x
    using that f1(2) f2(2) f3(2) dirs [of wb] dirs [of wc] by auto
  have keep: "fs_files w1 x = fs_files w x" if "is_dir wa x" for x
    using not_file [OF that] by (simp add: files1)
  have d_dir: "is_dir wa d"
    by (simp add: is_dir_def wa D_def)
  have anc_dir: "is_dir wa x" if "x \<in> set (ancestors d)" for x
    using that by (simp add: is_dir_def wa D_def)
  have q1: "is_dir wa (os_path_dirname p1)" "fs_files w (os_path_dirname p1) = None"
    using f1(3,4) by (simp_all add: wa)
  have q2: "is_dir wa (os_path_dirname p2)" "fs_files w (os_path_dirname p2) = None"
  proof -
    show a: "is_dir wa (os_path_dirname p2)"
      using f2(4) dirs [of wb] by simp
    show "fs_files w (os_path_dirname p2) = None"
      using f2(3) not_file [OF a] by (simp add: wb wa)
  qed
  have q3: "is_dir wa (os_path_dirname p3)" "fs_files w (os_path_dirname p3) = None"
  proof -
    show a: "is_dir wa (os_path_dirname p3)"
      using f3(4) dirs [of wc] by simp
    show "fs_files w (os_path_dirname p3) = None"
      using f3(3) not_file [OF a] by (simp add: wc wb wa)
  qed
  have "insert d (D \<union> set (ancestors d)) = D"
    by (auto simp add: D_def)
  moreover have "w1\<lparr>fs_dirs := D\<rparr> = w1"
    using dirs1(1) by (cases w1) simp
  ultimately have same: "w1\<lparr>fs_dirs := insert d (D \<union> set (ancestors d))\<rparr> = w1"
    by simp
  have "\<not> list_ex (\<lambda>x. fs_files w1 x \<noteq> None) (ancestors d)"
    using mk(3) keep anc_dir by (auto simp add: list_ex_iff)
  then have ta: "os_makedirs d w1 = Inr w1"
    using mk(1,2) keep [OF d_dir] by (simp add: os_makedirs_def same)
  define vb where "vb = w1\<lparr>fs_files := (fs_files w1)(p1 \<mapsto> c1)\<rparr>"
  define vc where "vc = vb\<lparr>fs_files := (fs_files vb)(p2 \<mapsto> c2)\<rparr>"
  define vd where "vd = vc\<lparr>fs_files := (fs_files vc)(p3 \<mapsto> c3)\<rparr>"
  have vdirs [simp]: "fs_dirs vb = D" "fs_dirs vc = D" "fs_dirs vd = D"
    by (simp_all add: vb_def vc_def vd_def)
  have tb: "write_file p1 c1 w1 = Inr vb"
    using f1(1,2) q1 keep [OF q1(1)] dirs [of w1]
    by (simp add: write_file_Inr_iff vb_def)
  have "fs_files vb (os_path_dirname p2) = None"
    using q2 keep [OF q2(1)] not_file [OF q2(1)] by (simp add: vb_def)
  then have tc: "write_file p2 c2 vb = Inr vc"
    using f2(1,2) q2 dirs [of vb] dirs [of wb]
    by (simp add: write_file_Inr_iff vc_def)
  have "fs_files vc (os_path_dirname p3) = None"
    using q3 keep [OF q3(1)] not_file [OF q3(1)] by (simp add: vc_def vb_def)
  then have td: "write_file p3 c3 vc = Inr vd"
    using f3(1,2) q3 dirs [of vc] dirs [of wc]
    by (simp add: write_file_Inr_iff vd_def)
  have "fs_files vd = fs_files w1"
    by (rule ext) (simp add: vd_def vc_def vb_def files1)
  then have vd: "vd = w1"
    by (simp add: vd_def vc_def vb_def)
  have "save_imageset pil img base_path name w1 = Inr (print line w1)"
    unfolding save_imageset_def Let_def Image_save_def json_dump_to_def
      imageset_dir_def [symmetric]
    unfolding png_1x_def [symmetric] png_2x_def [symmetric] contents_json_def [symmetric]
    unfolding d_def [symmetric] p1_def [symmetric] p2_def [symmetric] p3_def [symmetric]
      c1_def [symmetric] c3_def [symmetric] line_def [symmetric]
    by (simp add: ta tb rs tc [unfolded c2_def] td [unfolded vd])
  then show ?thesis
    by (simp add: print_def line_def)
qed

section \<open>One export, evaluated\<close>

lemma demo_paths:
  "imageset_dir ''AppIconAssets'' ''Back'' = ''AppIconAssets/Back.imageset''"
  "png_1x ''AppIconAssets'' ''Back'' = ''AppIconAssets/Back.imageset/Back.png''"
  "png_2x ''AppIconAssets'' ''Back'' = ''AppIconAssets/Back.imageset/Back@2x.png''"
  "contents_json ''AppIconAssets'' ''Back'' = ''AppIconAssets/Back.imageset/Contents.json''"
  by (simp_all add: imageset_dir_def png_1x_def png_2x_def contents_json_def os_path_join_def)

lemma demo_dirnames:
  "os_path_dirname ''AppIconAssets/Back.imageset'' = ''AppIconAssets''"
  "os_path_dirname ''AppIconAssets/Back.imageset/Back.png'' = ''AppIconAssets/Back.imageset''"
  "os_path_dirname ''AppIconAssets/Back.imageset/Back@2x.png'' = ''AppIconAssets/Back.imageset''"
  "os_path_dirname ''AppIconAssets/Back.imageset/Contents.json'' = ''AppIconAssets/Back.imageset''"
  by (simp_all add: os_path_dirname_def)

lemma demo_ancestors: "ancestors ''AppIconAssets/Back.imageset'' = [''AppIconAssets'']"
  by (subst ancestors.simps) (simp add: demo_dirnames ancestors_output_dir)

lemma demo_resize:
  "Image_resize demo_pillow (sky_gradient 400 240) (800, 480) =
     Inr \<lparr>img_width = 800, img_height = 480,
          img_px = pil_resample demo_pillow (sky_gradient 400 240) (800, 480)\<rparr>"
  by (simp add: Image_resize_def sky_gradient_def)

lemma demo_export:
  "save_imageset demo_pillow (sky_gradient 400 240) ''AppIconAssets'' ''Back'' empty_world =
     Inr \<lparr>fs_dirs = {''AppIconAssets/Back.imageset'', ''AppIconAssets''},
          fs_files =
            [''AppIconAssets/Back.imageset/Back.png'' \<mapsto> PngFile (sky_gradient 400 240),
             ''AppIconAssets/Back.imageset/Back@2x.png'' \<mapsto>
               PngFile \<lparr>img_width = 800, img_height = 480,
                 img_px = pil_resample demo_pillow (sky_gradient 400 240) (800, 480)\<rparr>,
             ''AppIconAssets/Back.imageset/Contents.json'' \<mapsto> JsonFile (contents ''Back'')],
          stdout = [check_mark @ '' Created Back @ 1x and 2x'']\<rparr>"
proof -
  have size: "img_width (sky_gradient 400 240) * 2 = 800" "img_height (sky_gradient 400 240) * 2 = 480"
    by (simp_all add: sky_gradient_def)
  show ?thesis
    unfolding save_imageset_def Let_def Image_save_def json_dump_to_def
      imageset_dir_def [symmetric]
    unfolding png_1x_def [symmetric] png_2x_def [symmetric] contents_json_def [symmetric]
    unfolding demo_paths size demo_resize
    by (simp add: os_makedirs_def write_file_def is_dir_def demo_ancestors demo_dirnames
        empty_world_def print_def)
qed


section \<open>Claims about the driver\<close>

text \<open>
  C1, as amended. With no candidate font present and a working directory that accepts
  the output, \<open>main\<close> builds the three layers twice, at 400 by 240 and at 1280 by 768
  (each drawn afresh): the gradient-only background, the airplane without caption and
  the two-ellipse cloud layer. It writes each of the six images as one preview PNG into
  \<open>AppIconAssets\<close> and touches no other file: \<open>main\<close> does not call \<open>save_imageset\<close>,
  so it writes no image of 800 by 480, no \<open>@2x\<close> file and no JSON descriptor.
\<close>

theorem main_writes_previews:
  assumes "no_font_installed w" "output_writable w"
  shows "returned (create_front_layer pil 400 240 w) = Inr (airplane_only pil 400 240) \<and>
         create_back_layer pil 400 240 = Inr (sky_gradient 400 240) \<and>
         create_middle_layer pil 400 240 = Inr (two_clouds pil 400 240) \<and>
         returned (create_front_layer pil 1280 768 w) = Inr (airplane_only pil 1280 768) \<and>
         create_back_layer pil 1280 768 = Inr (sky_gradient 1280 768) \<and>
         create_middle_layer pil 1280 768 = Inr (two_clouds pil 1280 768) \<and>
         main pil w =
           Inr \<lparr>fs_dirs = insert ''AppIconAssets'' (fs_dirs w),
                fs_files = (fs_files w)
                  (''AppIconAssets/Front-preview.png'' \<mapsto> PngFile (airplane_only pil 400 240),
                   ''AppIconAssets/Back-preview.png'' \<mapsto> PngFile (sky_gradient 400 240),
                   ''AppIconAssets/Middle-preview.png'' \<mapsto> PngFile (two_clouds pil 400 240),
                   ''AppIconAssets/Front-AppStore-preview.png'' \<mapsto>
                      PngFile (airplane_only pil 1280 768),
                   ''AppIconAssets/Back-AppStore-preview.png'' \<mapsto>
                      PngFile (sky_gradient 1280 768),
                   ''AppIconAssets/Middle-AppStore-preview.png'' \<mapsto>
                      PngFile (two_clouds pil 1280 768)),
                stdout = stdout w @
                  [banner_line, icon_layers_line, preview_saved_line ''AppIconAssets'',
                   store_layers_line, done_line] @ next_steps\<rparr> \<and>
         listing (main pil w) = dom (fs_files w) \<union> set preview_files \<and>
         map (png_size (main pil w)) preview_files =
           [Some (400, 240), Some (400, 240), Some (400, 240),
            Some (1280, 768), Some (1280, 768), Some (1280, 768)] \<and>
         (\<forall>p. p \<notin> set preview_files \<longrightarrow> stored (main pil w) p = fs_files w p)"
proof -
  have m: "main pil w = Inr (preview_world pil w)"
    using assms by (rule main_no_font)
  have fronts: "returned (create_front_layer pil 400 240 w) = Inr (airplane_only pil 400 240)"
    "returned (create_front_layer pil 1280 768 w) = Inr (airplane_only pil 1280 768)"
    using assms(1) by (simp_all add: create_front_layer_no_font returned_def)
  have backs: "create_back_layer pil 400 240 = Inr (sky_gradient 400 240)"
    "create_back_layer pil 1280 768 = Inr (sky_gradient 1280 768)"
    by (simp_all add: create_back_layer_def create_gradient_sky)
  have middles: "create_middle_layer pil 400 240 = Inr (two_clouds pil 400 240)"
    "create_middle_layer pil 1280 768 = Inr (two_clouds pil 1280 768)"
    by (simp_all add: create_middle_layer_clouds)
  have world: "main pil w =
           Inr \<lparr>fs_dirs = insert ''AppIconAssets'' (fs_dirs w),
                fs_files = (fs_files w)
                  (''AppIconAssets/Front-preview.png'' \<mapsto> PngFile (airplane_only pil 400 240),
                   ''AppIconAssets/Back-preview.png'' \<mapsto> PngFile (sky_gradient 400 240),
                   ''AppIconAssets/Middle-preview.png'' \<mapsto> PngFile (two_clouds pil 400 240),
                   ''AppIconAssets/Front-AppStore-preview.png'' \<mapsto>
                      PngFile (airplane_only pil 1280 768),
                   ''AppIconAssets/Back-AppStore-preview.png'' \<mapsto>
                      PngFile (sky_gradient 1280 768),
                   ''AppIconAssets/Middle-AppStore-preview.png'' \<mapsto>
                      PngFile (two_clouds pil 1280 768)),
                stdout = stdout w @
                  [banner_line, icon_layers_line, preview_saved_line ''AppIconAssets'',
                   store_layers_line, done_line] @ next_steps\<rparr>"
    unfolding m preview_world_def ..
  have other: "\<forall>p. p \<notin> set preview_files \<longrightarrow> stored (main pil w) p = fs_files w p"
    unfolding m using preview_world_other by blast
  show ?thesis
    using fronts backs middles world other preview_world_listing [of pil w]
      preview_world_sizes [of pil w]
    unfolding m by blast
qed

theorem main_writes_previews_witness:
  "no_font_installed empty_world \<and> output_writable empty_world \<and>
   listing (main demo_pillow empty_world) = set preview_files \<and>
   map (png_size (main demo_pillow empty_world)) preview_files =
     [Some (400, 240), Some (400, 240), Some (400, 240),
      Some (1280, 768), Some (1280, 768), Some (1280, 768)] \<and>
   stored (main demo_pillow empty_world) ''AppIconAssets/Back-preview.png'' =
     Some (PngFile (sky_gradient 400 240)) \<and>
   stored (main demo_pillow empty_world) ''AppIconAssets/Back.imageset/Back@2x.png'' = None"
proof -
  note t = main_writes_previews [OF empty_world_ready, of demo_pillow]
  have e: "fs_files empty_world = Map.empty"
    by (simp add: empty_world_def)
  have "listing (main demo_pillow empty_world) = dom (fs_files empty_world) \<union> set preview_files"
    using t by blast
  then have l: "listing (main demo_pillow empty_world) = set preview_files"
    unfolding e by simp
  have s: "map (png_size (main demo_pillow empty_world)) preview_files =
     [Some (400, 240), Some (400, 240), Some (400, 240),
      Some (1280, 768), Some (1280, 768), Some (1280, 768)]"
    using t by blast
  have "main demo_pillow empty_world =
      Inr \<lparr>fs_dirs = insert ''AppIconAssets'' (fs_dirs empty_world),
           fs_files = (fs_files empty_world)
             (''AppIconAssets/Front-preview.png'' \<mapsto> PngFile (airplane_only demo_pillow 400 240),
              ''AppIconAssets/Back-preview.png'' \<mapsto> PngFile (sky_gradient 400 240),
              ''AppIconAssets/Middle-preview.png'' \<mapsto> PngFile (two_clouds demo_pillow 400 240),
              ''AppIconAssets/Front-AppStore-preview.png'' \<mapsto>
                 PngFile (airplane_only demo_pillow 1280 768),
              ''AppIconAssets/Back-AppStore-preview.png'' \<mapsto>
                 PngFile (sky_gradient 1280 768),
              ''AppIconAssets/Middle-AppStore-preview.png'' \<mapsto>
                 PngFile (two_clouds demo_pillow 1280 768)),
           stdout = stdout empty_world @
             [banner_line, icon_layers_line, preview_saved_line ''AppIconAssets'',
              store_layers_line, done_line] @ next_steps\<rparr>"
    using t by blast
  then have b: "stored (main demo_pillow empty_world) ''AppIconAssets/Back-preview.png'' =
     Some (PngFile (sky_gradient 400 240))"
    by (simp add: stored_def)
  have "\<forall>p. p \<notin> set preview_files \<longrightarrow>
      stored (main demo_pillow empty_world) p = fs_files empty_world p"
    using t by blast
  then have n: "stored (main demo_pillow empty_world)
      ''AppIconAssets/Back.imageset/Back@2x.png'' = None"
    unfolding e by (simp add: preview_files_def)
  show ?thesis
    using empty_world_ready l s b n by blast
qed

theorem main_no_double_size_counterexample:
  "listing (main demo_pillow empty_world) = set preview_files \<and>
   map (png_size (main demo_pillow empty_world)) preview_files =
     [Some (400, 240), Some (400, 240), Some (400, 240),
      Some (1280, 768), Some (1280, 768), Some (1280, 768)] \<and>
   Some (800, 480) \<notin> set (map (png_size (main demo_pillow empty_world)) preview_files)"
proof -
  have m: "main demo_pillow empty_world = Inr (preview_world demo_pillow empty_world)"
    using empty_world_ready by (rule main_no_font)
  have l: "listing (main demo_pillow empty_world) = set preview_files"
    unfolding m preview_world_listing by (simp add: empty_world_def)
  have s: "map (png_size (main demo_pillow empty_world)) preview_files =
     [Some (400, 240), Some (400, 240), Some (400, 240),
      Some (1280, 768), Some (1280, 768), Some (1280, 768)]"
    unfolding m by (rule preview_world_sizes)
  show ?thesis
    unfolding s using l by simp
qed

section \<open>Claims about the gradient\<close>

text \<open>
  C2, as amended. For every positive width and height the gradient has exactly the top
  colour (135, 206, 235) in row 0. Row \<open>height - 1\<close> is interpolated with the ratio
  \<open>(height - 1) / height\<close>, which is less than 1: its colour is
  \<open>(135 + 38 (height - 1) div height, 206 + 10 (height - 1) div height,
  235 + (- 5 (height - 1)) div height)\<close>, whose red and green components stay strictly
  below the bottom endpoint (173, 216, 230); from height 38 on it is exactly
  (172, 215, 230). Every pixel of both rows is opaque.
\<close>

theorem create_gradient_endpoints:
  assumes "0 < width" "0 < height" "0 \<le> x" "x < width"
  shows "getpixel (create_gradient pil width height) (x, 0) = Some (135, 206, 235, 255) \<and>
         getpixel (create_gradient pil width height) (x, height - 1) =
           Some (135 + 38 * (height - 1) div height, 206 + 10 * (height - 1) div height,
                 235 + (- 5 * (height - 1)) div height, 255) \<and>
         135 + 38 * (height - 1) div height < 173 \<and>
         206 + 10 * (height - 1) div height < 216 \<and>
         (38 \<le> height \<longrightarrow>
            getpixel (create_gradient pil width height) (x, height - 1) = Some (172, 215, 230, 255))"
proof -
  have top: "getpixel (create_gradient pil width height) (x, 0) = Some (135, 206, 235, 255)"
    using assms by (simp add: getpixel_gradient gradient_color_top)
  have last: "getpixel (create_gradient pil width height) (x, height - 1) =
      Some (gradient_color (height - 1) height)"
    using assms by (simp add: getpixel_gradient)
  have closed: "getpixel (create_gradient pil width height) (x, height - 1) =
      Some (135 + 38 * (height - 1) div height, 206 + 10 * (height - 1) div height,
            235 + (- 5 * (height - 1)) div height, 255)"
    unfolding last gradient_color_last [OF assms(2)] ..
  have "fst (gradient_color (height - 1) height) < 173"
    using assms(2) by (rule gradient_color_short)
  then have red: "135 + 38 * (height - 1) div height < 173"
    unfolding gradient_color_last [OF assms(2)] fst_conv .
  have "fst (snd (gradient_color (height - 1) height)) < 216"
    using assms(2) by (rule gradient_color_short)
  then have green: "206 + 10 * (height - 1) div height < 216"
    unfolding gradient_color_last [OF assms(2)] fst_conv snd_conv .
  have tall: "38 \<le> height \<longrightarrow>
      getpixel (create_gradient pil width height) (x, height - 1) = Some (172, 215, 230, 255)"
  proof
    assume "38 \<le> height"
    then have "gradient_color (height - 1) height = (172, 215, 230, 255)"
      by (rule gradient_color_bottom)
    then show "getpixel (create_gradient pil width height) (x, height - 1) =
        Some (172, 215, 230, 255)"
      unfolding last by (simp only:)
  qed
  show ?thesis
    using top closed red green tall by blast
qed

theorem create_gradient_endpoints_witness:
  "(0::int) < 400 \<and> (0::int) < 240 \<and> (0::int) \<le> 7 \<and> (7::int) < 400 \<and>
   getpixel (create_gradient demo_pillow 400 240) (7, 0) = Some (135, 206, 235, 255) \<and>
   getpixel (create_gradient demo_pillow 400 240) (7, 239) = Some (172, 215, 230, 255)"
  using create_gradient_endpoints [of 400 240 7 demo_pillow] by simp

theorem create_gradient_bottom_counterexample:
  "getpixel (create_gradient demo_pillow 400 240) (0, 239) = Some (172, 215, 230, 255) \<and>
   getpixel (create_gradient demo_pillow 400 240) (0, 239) \<noteq> Some (173, 216, 230, 255)"
proof -
  have a: "getpixel (create_gradient demo_pillow 400 240) (0, 240 - 1) =
      Some (gradient_color (240 - 1) 240)"
    by (intro getpixel_gradient) simp_all
  have b: "gradient_color (240 - 1) 240 = (172, 215, 230, 255)"
    by (rule gradient_color_bottom) simp
  have "getpixel (create_gradient demo_pillow 400 240) (0, 240 - 1) = Some (172, 215, 230, 255)"
    by (simp only: a b)
  then show ?thesis
    by simp
qed

section \<open>Claims about the export step\<close>

text \<open>
  C3: whenever the export step returns, the descriptor it has written holds exactly two
  image entries, the first with scale 1x and the second with scale 2x, each with the keys
  filename, idiom and scale, followed by an info object with the keys author and version.
  The image takes no part in it.
\<close>

theorem save_imageset_descriptor:
  assumes "save_imageset pil img base_path name w = Inr w'"
  shows "fs_files w' (os_path_join (os_path_join base_path (name @ ''.imageset'')) ''Contents.json'') =
     Some (JsonFile
       (JObj [(''images'',
               JArr [JObj [(''filename'', JStr (name @ ''.png'')),
                           (''idiom'', JStr ''tv''),
                           (''scale'', JStr ''1x'')],
                     JObj [(''filename'', JStr (name @ ''@2x.png'')),
                           (''idiom'', JStr ''tv''),
                           (''scale'', JStr ''2x'')]]),
              (''info'',
               JObj [(''author'', JStr ''xcode''),
                     (''version'', JInt 1)])]))"
proof -
  obtain img_2x where
    "w' = \<lparr>fs_dirs = fs_dirs w \<union> set (imageset_dir base_path name # ancestors (imageset_dir base_path name)),
           fs_files = (fs_files w)(png_1x base_path name \<mapsto> PngFile img,
                                   png_2x base_path name \<mapsto> PngFile img_2x,
                                   contents_json base_path name \<mapsto> JsonFile (contents name)),
           stdout = stdout w @ [check_mark @ '' Created '' @ name @ '' @ 1x and 2x'']\<rparr>"
    using save_imageset_Inr [OF assms] by blast
  then have "fs_files w' (contents_json base_path name) = Some (JsonFile (contents name))"
    by simp
  then show ?thesis
    unfolding contents_json_def imageset_dir_def contents_def .
qed

theorem save_imageset_descriptor_witness:
  "stored (save_imageset demo_pillow (sky_gradient 400 240) ''AppIconAssets'' ''Back'' empty_world)
     ''AppIconAssets/Back.imageset/Contents.json'' =
   Some (JsonFile
       (JObj [(''images'',
               JArr [JObj [(''filename'', JStr ''Back.png''),
                           (''idiom'', JStr ''tv''),
                           (''scale'', JStr ''1x'')],
                     JObj [(''filename'', JStr ''Back@2x.png''),
                           (''idiom'', JStr ''tv''),
                           (''scale'', JStr ''2x'')]]),
              (''info'',
               JObj [(''author'', JStr ''xcode''),
                     (''version'', JInt 1)])]))"
  using save_imageset_descriptor [OF demo_export]
  by (simp add: stored_def demo_export os_path_join_def)

section \<open>Claims about fonts\<close>

text \<open>
  C4: when none of the candidate font paths exists, \<open>create_front_layer\<close> returns the
  layer with the airplane and its shadow only and leaves the terminal as it was: it
  prints nothing. The script then runs to its end with exit status 0 (on a working
  directory that accepts the output), and none of the lines it prints is a warning.
\<close>

theorem missing_font_is_silent:
  assumes "no_font_installed w"
  shows "(0 \<le> width \<and> 0 \<le> height \<longrightarrow>
            create_front_layer pil width height w = Inr (airplane_only pil width height, w)) \<and>
         (output_writable w \<longrightarrow>
            (\<exists>w'. script (Some pil) w = Inr (0, w') \<and>
                  stdout w' = stdout w @
                    [banner_line, icon_layers_line, preview_saved_line ''AppIconAssets'',
                     store_layers_line, done_line] @ next_steps))"
proof -
  have "script (Some pil) w = Inr (0, preview_world pil w)" if "output_writable w"
    using assms that by (simp add: script_Some main_no_font)
  moreover have "stdout (preview_world pil w) = stdout w @
      [banner_line, icon_layers_line, preview_saved_line ''AppIconAssets'',
       store_layers_line, done_line] @ next_steps"
    by (simp add: preview_world_def)
  ultimately show ?thesis
    using assms by (auto simp add: create_front_layer_no_font)
qed

theorem missing_font_is_silent_witness:
  "no_font_installed empty_world \<and> output_writable empty_world \<and>
   create_front_layer demo_pillow 400 240 empty_world =
     Inr (airplane_only demo_pillow 400 240, empty_world) \<and>
   printed (create_front_layer demo_pillow 400 240 empty_world) = Some [] \<and>
   map_sum id fst (script (Some demo_pillow) empty_world) = Inr 0"
proof -
  note t = missing_font_is_silent [OF empty_world_ready(1), of 400 240 demo_pillow]
  have a: "create_front_layer demo_pillow 400 240 empty_world =
     Inr (airplane_only demo_pillow 400 240, empty_world)"
    using t by simp
  then have b: "printed (create_front_layer demo_pillow 400 240 empty_world) = Some []"
    by (simp add: printed_def empty_world_def)
  obtain w' where "script (Some demo_pillow) empty_world = Inr (0, w')"
    using t empty_world_ready(2) by blast
  then have c: "map_sum id fst (script (Some demo_pillow) empty_world) = Inr 0"
    by simp
  show ?thesis
    using empty_world_ready a b c by blast
qed




section \<open>Claims about dimensions\<close>

text \<open>
  C6: for every requested width and height, a layer that is produced has exactly that
  width and height (none is produced for a negative width or height: Pillow raises),
  and whenever the export step returns, the \<open>@2x\<close> file holds an image of exactly twice
  the width and twice the height of the exported image, next to the image itself.
\<close>

theorem layer_dimensions:
  "dimensions (returned (create_front_layer pil width height w)) =
     (if 0 \<le> width \<and> 0 \<le> height then Some (width, height) else None) \<and>
   dimensions (create_back_layer pil width height) =
     (if 0 \<le> width \<and> 0 \<le> height then Some (width, height) else None) \<and>
   dimensions (create_middle_layer pil width height) =
     (if 0 \<le> width \<and> 0 \<le> height then Some (width, height) else None) \<and>
   (save_imageset pil img base_path name v = Inr v' \<longrightarrow>
      png_size (Inr v') (os_path_join (os_path_join base_path (name @ ''.imageset'')) (name @ ''@2x.png'')) =
        Some (2 * img_width img, 2 * img_height img) \<and>
      stored (Inr v') (os_path_join (os_path_join base_path (name @ ''.imageset'')) (name @ ''.png'')) =
        Some (PngFile img))"
proof -
  have front: "dimensions (returned (create_front_layer pil width height w)) =
     (if 0 \<le> width \<and> 0 \<le> height then Some (width, height) else None)"
  proof (cases "0 \<le> width \<and> 0 \<le> height")
    case True
    then obtain img warn where
      "create_front_layer pil width height w = Inr (img, w\<lparr>stdout := stdout w @ warn\<rparr>)"
      "img_width img = width" "img_height img = height"
      using create_front_layer_Inr [of width height pil w] by blast
    with True show ?thesis
      by (simp add: dimensions_def returned_def)
  next
    case False
    then have "width < 0 \<or> height < 0" by auto
    then have "create_front_layer pil width height w =
        Inl (ValueError ''Width and height must be >= 0'')"
      by (rule create_front_layer_neg)
    with False show ?thesis
      by (simp add: dimensions_def returned_def)
  qed
  have backs: "dimensions (create_back_layer pil width height) =
     (if 0 \<le> width \<and> 0 \<le> height then Some (width, height) else None)"
  proof (cases "0 \<le> width \<and> 0 \<le> height")
    case True
    then show ?thesis
      by (simp add: create_back_layer_def create_gradient_sky dimensions_def sky_gradient_def)
  next
    case False
    then have "width < 0 \<or> height < 0" by auto
    then have "create_gradient pil width height =
        Inl (ValueError ''Width and height must be >= 0'')"
      by (rule create_gradient_neg)
    with False show ?thesis
      by (simp add: create_back_layer_def dimensions_def)
  qed
  have middles: "dimensions (create_middle_layer pil width height) =
     (if 0 \<le> width \<and> 0 \<le> height then Some (width, height) else None)"
  proof (cases "0 \<le> width \<and> 0 \<le> height")
    case True
    then show ?thesis
      by (simp add: create_middle_layer_clouds dimensions_def two_clouds_def)
  next
    case False
    then have "width < 0 \<or> height < 0" by auto
    then have "create_middle_layer pil width height =
        Inl (ValueError ''Width and height must be >= 0'')"
      by (rule create_middle_layer_neg)
    with False show ?thesis
      by (simp add: dimensions_def)
  qed
  have export: "png_size (Inr v') (png_2x base_path name) =
        Some (2 * img_width img, 2 * img_height img) \<and>
      stored (Inr v') (png_1x base_path name) = Some (PngFile img)"
    if run: "save_imageset pil img base_path name v = Inr v'"
  proof -
    obtain img_2x where
      r: "Image_resize pil img (img_width img * 2, img_height img * 2) = Inr img_2x" and
      v': "v' = \<lparr>fs_dirs = fs_dirs v \<union> set (imageset_dir base_path name # ancestors (imageset_dir base_path name)),
           fs_files = (fs_files v)(png_1x base_path name \<mapsto> PngFile img,
                                   png_2x base_path name \<mapsto> PngFile img_2x,
                                   contents_json base_path name \<mapsto> JsonFile (contents name)),
           stdout = stdout v @ [check_mark @ '' Created '' @ name @ '' @ 1x and 2x'']\<rparr>"
      using save_imageset_Inr [OF run] by blast
    have d: "img_width img_2x = 2 * img_width img" "img_height img_2x = 2 * img_height img"
      using r by (auto simp add: Image_resize_def split: if_splits)
    have n: "png_2x base_path name \<noteq> contents_json base_path name"
      "png_1x base_path name \<noteq> contents_json base_path name"
      "png_1x base_path name \<noteq> png_2x base_path name"
      using contents_json_neq [of base_path name] png_1x_neq_2x [of base_path name] by auto
    show ?thesis
      by (simp add: png_size_def stored_def v' n d)
  qed
  show ?thesis
    using front backs middles export
    unfolding png_2x_def png_1x_def imageset_dir_def by blast
qed

theorem layer_dimensions_witness:
  "dimensions (returned (create_front_layer demo_pillow 400 240 empty_world)) = Some (400, 240) \<and>
   dimensions (create_back_layer demo_pillow 1280 768) = Some (1280, 768) \<and>
   dimensions (create_middle_layer demo_pillow 400 (- 1)) = None \<and>
   png_size (save_imageset demo_pillow (sky_gradient 400 240) ''AppIconAssets'' ''Back'' empty_world)
     ''AppIconAssets/Back.imageset/Back@2x.png'' = Some (800, 480)"
proof -
  obtain v' where run:
    "save_imageset demo_pillow (sky_gradient 400 240) ''AppIconAssets'' ''Back'' empty_world = Inr v'"
    using demo_export by blast
  have "png_size (Inr v')
      (os_path_join (os_path_join ''AppIconAssets'' (''Back'' @ ''.imageset'')) (''Back'' @ ''@2x.png'')) =
        Some (2 * img_width (sky_gradient 400 240), 2 * img_height (sky_gradient 400 240))"
    using layer_dimensions [of demo_pillow 400 240 empty_world "sky_gradient 400 240"
      "''AppIconAssets''" "''Back''" empty_world v'] run by blast
  then have a: "png_size
      (save_imageset demo_pillow (sky_gradient 400 240) ''AppIconAssets'' ''Back'' empty_world)
      ''AppIconAssets/Back.imageset/Back@2x.png'' = Some (800, 480)"
    unfolding run by (simp add: os_path_join_def sky_gradient_def)
  have b: "dimensions (returned (create_front_layer demo_pillow 400 240 empty_world)) =
      Some (400, 240)"
    using layer_dimensions [of demo_pillow 400 240 empty_world] by simp
  have c: "dimensions (create_back_layer demo_pillow 1280 768) = Some (1280, 768)"
    using layer_dimensions [of demo_pillow 1280 768 empty_world] by simp
  have d: "dimensions (create_middle_layer demo_pillow 400 (- 1)) = None"
    using layer_dimensions [of demo_pillow 400 "- 1" empty_world] by simp
  show ?thesis
    using a b c d by blast
qed

section \<open>Claims about repeating the export step\<close>

text \<open>
  C7: when the export step has returned, running it again with the same image, base path
  and name returns as well and leaves every file and every directory as the first run
  left them; the second run only prints its line once more.
\<close>

theorem save_imageset_idempotent:
  assumes "save_imageset pil img base_path name w = Inr w1"
  shows "\<exists>w2. save_imageset pil img base_path name w1 = Inr w2 \<and>
           fs_files w2 = fs_files w1 \<and> fs_dirs w2 = fs_dirs w1 \<and>
           stdout w2 = stdout w1 @ [check_mark @ '' Created '' @ name @ '' @ 1x and 2x'']"
  using save_imageset_again [OF assms] by simp

theorem save_imageset_idempotent_witness:
  "stored (and_then
      (save_imageset demo_pillow (sky_gradient 400 240) ''AppIconAssets'' ''Back'' empty_world)
      (save_imageset demo_pillow (sky_gradient 400 240) ''AppIconAssets'' ''Back'')) =
   stored (save_imageset demo_pillow (sky_gradient 400 240) ''AppIconAssets'' ''Back'' empty_world) \<and>
   listing (and_then
      (save_imageset demo_pillow (sky_gradient 400 240) ''AppIconAssets'' ''Back'' empty_world)
      (save_imageset demo_pillow (sky_gradient 400 240) ''AppIconAssets'' ''Back'')) =
   {''AppIconAssets/Back.imageset/Back.png'', ''AppIconAssets/Back.imageset/Back@2x.png'',
    ''AppIconAssets/Back.imageset/Contents.json''}"
proof -
  obtain w1 where run:
    "save_imageset demo_pillow (sky_gradient 400 240) ''AppIconAssets'' ''Back'' empty_world = Inr w1"
    and files: "dom (fs_files w1) =
      {''AppIconAssets/Back.imageset/Back.png'', ''AppIconAssets/Back.imageset/Back@2x.png'',
       ''AppIconAssets/Back.imageset/Contents.json''}"
    using demo_export by auto
  obtain w2 where again:
    "save_imageset demo_pillow (sky_gradient 400 240) ''AppIconAssets'' ''Back'' w1 = Inr w2"
    "fs_files w2 = fs_files w1"
    using save_imageset_idempotent [OF run] by blast
  have "stored (Inr w2) = stored (Inr w1)"
    by (rule ext) (simp add: stored_def again)
  then show ?thesis
    by (simp add: run again listing_def files)
qed

section \<open>Claims about the script as a whole\<close>

text \<open>
  C8: when the drawing library cannot be imported, the script prints its error line
  and exits with status 1, and nothing else has happened: no directory, no file and no
  other line. Otherwise it runs \<open>main\<close>; the exit status is 0 exactly when \<open>main\<close>
  returns (an exception that leaves \<open>main\<close> is not caught), and then the terminal shows
  the progress lines, at most one warning after each of the two announcements of a layer
  size, and the next-steps instructions at the end.
\<close>

theorem script_exit_status:
  "script None w =
     Inr (1, w\<lparr>stdout := stdout w @
                 [cross_mark @ '' PIL/Pillow not installed. Run: pip3 install pillow'']\<rparr>) \<and>
   script (Some pil) v = (case main pil v of Inl e \<Rightarrow> Inl e | Inr v' \<Rightarrow> Inr (0, v')) \<and>
   (main pil v = Inr v' \<longrightarrow>
      (\<exists>warn1 warn2.
         stdout v' = stdout v @ [banner_line, icon_layers_line] @ warn1 @
           [preview_saved_line ''AppIconAssets'', store_layers_line] @ warn2 @
           done_line # next_steps \<and>
         length warn1 \<le> 1 \<and> length warn2 \<le> 1))"
  using script_None [of w] script_Some [of pil v] main_Inr_stdout [of pil v v']
  by blast

theorem script_exit_status_witness:
  "script (None :: unit pillow option) empty_world =
     Inr (1, empty_world\<lparr>stdout :=
       [cross_mark @ '' PIL/Pillow not installed. Run: pip3 install pillow'']\<rparr>) \<and>
   script (Some demo_pillow) empty_world = Inr (0, preview_world demo_pillow empty_world) \<and>
   stdout (preview_world demo_pillow empty_world) =
     [banner_line, icon_layers_line, preview_saved_line ''AppIconAssets'', store_layers_line,
      done_line] @ next_steps"
proof -
  have m: "main demo_pillow empty_world = Inr (preview_world demo_pillow empty_world)"
    using empty_world_ready by (rule main_no_font)
  note t = script_exit_status [of empty_world demo_pillow empty_world
      "preview_world demo_pillow empty_world", where ?'a = unit]
  have a: "script (None :: unit pillow option) empty_world =
     Inr (1, empty_world\<lparr>stdout :=
       [cross_mark @ '' PIL/Pillow not installed. Run: pip3 install pillow'']\<rparr>)"
    using t by (simp add: empty_world_def)
  have b: "script (Some demo_pillow) empty_world = Inr (0, preview_world demo_pillow empty_world)"
    using t by (simp add: m)
  have c: "stdout (preview_world demo_pillow empty_world) =
     [banner_line, icon_layers_line, preview_saved_line ''AppIconAssets'', store_layers_line,
      done_line] @ next_steps"
    by (simp add: preview_world_def empty_world_def)
  show ?thesis
    using a b c by blast
qed

section \<open>Claims about the pixels of the layers\<close>





end
